theory Spec2Isabelle
  imports Main "HOL-Library.Sublist" "HOL-Library.Char_ord" "HOL-Library.List_Lexorder"
begin

section \<open>Strings and formatting\<close>

text \<open>
  Go strings are byte sequences; they are modelled as \<^typ>\<open>string\<close> (a list of 8-bit
  characters). The functions of this section model the parts of the Go standard library
  that the package calls on strings (\<^verbatim>\<open>strings\<close>, \<^verbatim>\<open>fmt\<close>, \<^verbatim>\<open>net/url\<close>).
\<close>

text \<open>\<^verbatim>\<open>strings.Contains(s, substr)\<close>: \<open>substr\<close> occurs in \<open>s\<close> as a contiguous block.\<close>

fun strings_Contains :: "string \<Rightarrow> string \<Rightarrow> bool" where
  "strings_Contains [] substr = (substr = [])"
| "strings_Contains (c # s) substr = (prefix substr (c # s) \<or> strings_Contains s substr)"

text \<open>\<^verbatim>\<open>strings.Join(elems, sep)\<close>.\<close>

fun strings_Join :: "string list \<Rightarrow> string \<Rightarrow> string" where
  "strings_Join [] sep = []"
| "strings_Join [e] sep = e"
| "strings_Join (e # es) sep = e @ sep @ strings_Join es sep"

text \<open>\<^verbatim>\<open>strings.Split(s, sep)\<close> for a one-byte separator: the pieces between the separators.\<close>

fun strings_Split :: "string \<Rightarrow> char \<Rightarrow> string list" where
  "strings_Split [] sep = [[]]"
| "strings_Split (c # s) sep =
     (if c = sep then [] # strings_Split s sep
      else (case strings_Split s sep of
              [] \<Rightarrow> [[c]]
            | piece # pieces \<Rightarrow> (c # piece) # pieces))"

text \<open>The verb \<^verbatim>\<open>%d\<close> of \<^verbatim>\<open>fmt.Sprintf\<close> on an \<^verbatim>\<open>int\<close>: decimal digits, with a sign
  for a negative number.\<close>

fun decimal :: "nat \<Rightarrow> string" where
  "decimal n = (if n < 10 then [''0123456789'' ! n]
                else decimal (n div 10) @ [''0123456789'' ! (n mod 10)])"

declare decimal.simps [simp del]

definition fmt_d :: "int \<Rightarrow> string" where
  "fmt_d i = (if i < 0 then ''-'' @ decimal (nat (- i)) else decimal (nat i))"

text \<open>The verb \<^verbatim>\<open>%t\<close> on a \<^verbatim>\<open>bool\<close>.\<close>

definition fmt_t :: "bool \<Rightarrow> string" where
  "fmt_t b = (if b then ''true'' else ''false'')"

text \<open>
  \<^verbatim>\<open>url.QueryEscape\<close>: \<^verbatim>\<open>escape(s, encodeQueryComponent)\<close> of \<^verbatim>\<open>net/url\<close>. Letters, digits
  and \<^verbatim>\<open>- _ . ~\<close> are kept; a space becomes \<^verbatim>\<open>+\<close>; every other byte becomes \<^verbatim>\<open>%XX\<close>
  with upper-case hexadecimal digits.
\<close>

definition shouldEscape :: "char \<Rightarrow> bool" where
  "shouldEscape c =
     (if (CHR ''a'' \<le> c \<and> c \<le> CHR ''z'') \<or> (CHR ''A'' \<le> c \<and> c \<le> CHR ''Z'')
         \<or> (CHR ''0'' \<le> c \<and> c \<le> CHR ''9'') then False
      else if c = CHR ''-'' \<or> c = CHR ''_'' \<or> c = CHR ''.'' \<or> c = CHR ''~'' then False
      else True)"

definition upperhex :: string where
  "upperhex = ''0123456789ABCDEF''"

definition escapeByte :: "char \<Rightarrow> string" where
  "escapeByte c =
     (if shouldEscape c then
        (if c = CHR '' '' then ''+''
         else [CHR ''%'', upperhex ! ((of_char c :: nat) div 16), upperhex ! ((of_char c :: nat) mod 16)])
      else [c])"

definition url_QueryEscape :: "string \<Rightarrow> string" where
  "url_QueryEscape s = concat (map escapeByte s)"

section \<open>Errors\<close>

text \<open>
  The sentinel errors of \<^verbatim>\<open>errors.go\<close>, and the errors made by \<^verbatim>\<open>fmt.Errorf\<close>:
  \<open>Errorf msg\<close> is an error that carries only its message (no \<^verbatim>\<open>%w\<close> verb);
  \<open>Wrapped pre e post\<close> is an error made with one \<^verbatim>\<open>%w\<close> verb, which wraps \<open>e\<close> and prints
  it between \<open>pre\<close> and \<open>post\<close>.
\<close>

datatype error =
    ErrAuthMissing
  | ErrKeywordsMissing
  | ErrRequestBuildFailed
  | ErrRequestFailed
  | ErrUnauthorized
  | ErrRateLimited
  | ErrResponseParseFailed
  | ErrNoProfilesFound
  | Errorf string
  | Wrapped string error string

text \<open>The method \<^verbatim>\<open>Error()\<close>: the message of an error.\<close>

fun Error :: "error \<Rightarrow> string" where
  "Error ErrAuthMissing = ''linkedinscraper: authentication credentials (li_at, csrf_token) are missing''"
| "Error ErrKeywordsMissing = ''linkedinscraper: search keywords are missing''"
| "Error ErrRequestBuildFailed = ''linkedinscraper: failed to build API request''"
| "Error ErrRequestFailed = ''linkedinscraper: API request failed''"
| "Error ErrUnauthorized = ''linkedinscraper: unauthorized, check credentials or IP reputation''"
| "Error ErrRateLimited = ''linkedinscraper: rate limited by API''"
| "Error ErrResponseParseFailed = ''linkedinscraper: failed to parse API response''"
| "Error ErrNoProfilesFound = ''linkedinscraper: no profiles found matching criteria''"
| "Error (Errorf msg) = msg"
| "Error (Wrapped pre e post) = pre @ Error e @ post"

text \<open>\<^verbatim>\<open>errors.Is(err, target)\<close> for a sentinel \<open>target\<close>: the error or one it wraps is the target.\<close>

fun errors_Is :: "error \<Rightarrow> error \<Rightarrow> bool" where
  "errors_Is (Wrapped pre e post) target = (Wrapped pre e post = target \<or> errors_Is e target)"
| "errors_Is e target = (e = target)"

text \<open>The error variables that \<^verbatim>\<open>errors.go\<close> declares. The package declares no error type
  of its own, so these sentinels are all that a caller can tell an error by, other than
  by its text.\<close>

definition sentinelErrors :: "error list" where
  "sentinelErrors =
     [ErrAuthMissing, ErrKeywordsMissing, ErrRequestBuildFailed, ErrRequestFailed,
      ErrUnauthorized, ErrRateLimited, ErrResponseParseFailed, ErrNoProfilesFound]"

text \<open>An error is typed when \<^verbatim>\<open>errors.Is\<close> matches it with one of the sentinels.\<close>

definition typedError :: "error \<Rightarrow> bool" where
  "typedError err = list_ex (errors_Is err) sentinelErrors"

section \<open>The query encoder\<close>

subsection \<open>Search arguments and variables (models.go)\<close>

record ProfileSearchArgs =
  args_Keywords :: string
  args_NetworkFilters :: "string list"
  args_Start :: int
  args_Count :: int
  args_XLiPageInstance :: string
  args_XLiTrack :: string

record SearchQueryParameters =
  qp_Key :: string
  qp_Value :: "string list"

record SearchQuerySubQuery =
  sq_Keywords :: string
  sq_FlagshipSearchIntent :: string
  sq_QueryParameters :: "SearchQueryParameters list"
  sq_IncludeFiltersInResponse :: bool

record SearchVariables =
  sv_Start :: int
  sv_Count :: int
  sv_Origin :: string
  sv_Query :: SearchQuerySubQuery

subsection \<open>URLs (net/url)\<close>

text \<open>
  A parsed \<^verbatim>\<open>*url.URL\<close>, as far as \<^verbatim>\<open>buildGraphQLURL\<close> uses one. \<open>url_Head\<close> is what
  \<^verbatim>\<open>String()\<close> prints before the query (scheme, authority, path), \<open>url_Tail\<close> what it prints
  after it (the fragment with its \<^verbatim>\<open>#\<close>, or nothing), \<open>url_Values\<close> what \<^verbatim>\<open>Query()\<close>
  returns. \<^verbatim>\<open>url.Parse\<close> itself is a parameter of the functions that call it.
\<close>

type_synonym Values = "(string \<times> string list) list"

record URL =
  url_Head :: string
  url_Values :: Values
  url_RawQuery :: string
  url_ForceQuery :: bool
  url_Tail :: string

definition url_String :: "URL \<Rightarrow> string" where
  "url_String u =
     url_Head u
     @ (if url_ForceQuery u \<or> url_RawQuery u \<noteq> [] then ''?'' @ url_RawQuery u else [])
     @ url_Tail u"

text \<open>\<^verbatim>\<open>Values.Set\<close> replaces the values of a key by one value.\<close>

fun Values_Set :: "Values \<Rightarrow> string \<Rightarrow> string \<Rightarrow> Values" where
  "Values_Set [] key val = [(key, [val])]"
| "Values_Set ((k, vs) # rest) key val =
     (if k = key then (key, [val]) # rest else (k, vs) # Values_Set rest key val)"

text \<open>\<^verbatim>\<open>Values.Encode\<close>: the pairs \<^verbatim>\<open>key=value\<close>, both escaped, sorted by key, joined by \<^verbatim>\<open>&\<close>.\<close>

definition Values_Encode :: "Values \<Rightarrow> string" where
  "Values_Encode v =
     strings_Join
       (concat (map (\<lambda>(k, vs). map (\<lambda>x. url_QueryEscape k @ ''='' @ url_QueryEscape x) vs)
                    (sort_key fst v)))
       ''&''"

subsection \<open>buildGraphQLURL (client.go)\<close>

definition stringSliceToString :: "string list \<Rightarrow> string \<Rightarrow> string" where
  "stringSliceToString slice sep = strings_Join slice sep"

text \<open>The body of the loop over \<^verbatim>\<open>variables.Query.QueryParameters\<close>: one entry is appended
  to \<^verbatim>\<open>queryParams\<close>.\<close>

definition appendQueryParam :: "string list \<Rightarrow> SearchQueryParameters \<Rightarrow> string list" where
  "appendQueryParam queryParams p =
     (let valueList = ''List('' @ stringSliceToString (qp_Value p) '','' @ '')''
      in queryParams @ [''(key:'' @ qp_Key p @ '',value:'' @ valueList @ '')''])"

text \<open>The local \<^verbatim>\<open>variablesString\<close> of \<^verbatim>\<open>buildGraphQLURL\<close>: the value of the
  \<^verbatim>\<open>variables\<close> parameter, in the server's own grammar.\<close>

definition variablesString :: "SearchVariables \<Rightarrow> string" where
  "variablesString variables =
     (let queryParams = foldl appendQueryParam [] (sq_QueryParameters (sv_Query variables));
          queryParametersString = ''List('' @ stringSliceToString queryParams '','' @ '')''
      in ''(start:'' @ fmt_d (sv_Start variables)
         @ '',count:'' @ fmt_d (sv_Count variables)
         @ '',origin:'' @ sv_Origin variables
         @ '',query:(keywords:'' @ url_QueryEscape (sq_Keywords (sv_Query variables))
         @ '',flagshipSearchIntent:'' @ sq_FlagshipSearchIntent (sv_Query variables)
         @ '',queryParameters:'' @ queryParametersString
         @ '',includeFiltersInResponse:'' @ fmt_t (sq_IncludeFiltersInResponse (sv_Query variables))
         @ ''))'')"

definition buildGraphQLURL ::
  "(string \<Rightarrow> error + URL) \<Rightarrow> string \<Rightarrow> string \<Rightarrow> SearchVariables \<Rightarrow> error + string" where
  "buildGraphQLURL url_Parse baseURL queryID variables =
     (case url_Parse baseURL of
        Inl err \<Rightarrow> Inl (Wrapped ''failed to parse base URL: '' err [])
      | Inr parsedBaseURL \<Rightarrow>
          (let query = url_Values parsedBaseURL;
               query = Values_Set query ''queryId'' queryID;
               query = Values_Set query ''includeWebMetadata'' ''true'';
               encodedBaseQuery = Values_Encode query;
               finalQueryString = encodedBaseQuery @ ''&variables='' @ variablesString variables
           in Inr (url_String (parsedBaseURL\<lparr>url_RawQuery := finalQueryString\<rparr>))))"

section \<open>The data model (models.go)\<close>

subsection \<open>The domain entity\<close>

record Date =
  d_Year :: int
  d_Month :: int
  d_Day :: int

text \<open>A Go pointer that may be nil is an \<^typ>\<open>'a option\<close>.\<close>

record DateRange =
  dr_Start :: "Date option"
  dr_End :: "Date option"

record Experience =
  ex_EntityURN :: string
  ex_CompanyName :: string
  ex_CompanyURN :: string
  ex_Title :: string
  ex_Description :: string
  ex_DateRange :: "DateRange option"
  ex_LocationName :: string
  ex_MultiLocaleCompanyName :: "(string \<times> string) list list"

record Education =
  ed_EntityURN :: string
  ed_SchoolName :: string
  ed_SchoolURN :: string
  ed_DegreeName :: string
  ed_FieldOfStudy :: string
  ed_DateRange :: "DateRange option"
  ed_Description :: string
  ed_Activities :: string

record Skill =
  sk_EntityURN :: string
  sk_Name :: string
  sk_EndorsementCount :: int
  sk_EndorsedByViewer :: bool

record Certification =
  ce_EntityURN :: string
  ce_Name :: string
  ce_Authority :: string
  ce_DateRange :: "DateRange option"
  ce_LicenseNumber :: string
  ce_URL :: string

record ProfileLocation =
  pl_CountryCode :: string
  pl_PostalCode :: string
  pl_PreferredGeoPlace :: string

record ProfilePicture =
  pp_DisplayImageUrn :: string
  pp_PhotoFilterPicture :: string
  pp_RootURL :: string
  pp_A11yText :: string

record ConnectionInfo =
  ci_ConnectionCount :: int
  ci_FollowerCount :: int
  ci_FollowingCount :: int
  ci_Following :: bool

record LinkedInProfile =
  PublicIdentifier :: string
  URN :: string
  FullName :: string
  Headline :: string
  Location :: string
  ProfileURL :: string
  FirstName :: string
  LastName :: string
  Summary :: string
  Industry :: string
  LocationDetails :: "ProfileLocation option"
  Experience :: "Experience list"
  Education :: "Education list"
  Skills :: "Skill list"
  Certifications :: "Certification list"
  ProfilePicture :: "ProfilePicture option"
  BackgroundImageURL :: string
  ConnectionInfo :: "ConnectionInfo option"
  IsVerified :: bool
  IsCreator :: bool
  IsPremium :: bool
  IsMemorialized :: bool
  TempStatus :: string
  TempStatusEmoji :: string
  CreatorWebsite :: string

text \<open>The zero value of \<^verbatim>\<open>LinkedInProfile\<close>: what a composite literal leaves in the fields
  it does not name.\<close>

definition LinkedInProfile_zero :: LinkedInProfile where
  "LinkedInProfile_zero =
     \<lparr>PublicIdentifier = [], URN = [], FullName = [], Headline = [], Location = [],
      ProfileURL = [], FirstName = [], LastName = [], Summary = [], Industry = [],
      LocationDetails = None, Experience = [], Education = [], Skills = [],
      Certifications = [], ProfilePicture = None, BackgroundImageURL = [],
      ConnectionInfo = None, IsVerified = False, IsCreator = False, IsPremium = False,
      IsMemorialized = False, TempStatus = [], TempStatusEmoji = [], CreatorWebsite = []\<rparr>"

subsection \<open>The wire entities\<close>

record DateResponse =
  dres_Year :: int
  dres_Month :: int
  dres_Day :: int
  dres_RecipeTypes :: "string list"
  dres_Type :: string

record DateRangeResponse =
  drr_Start :: "DateResponse option"
  drr_End :: "DateResponse option"
  drr_RecipeTypes :: "string list"
  drr_Type :: string

text \<open>
  \<^verbatim>\<open>GenericIncludedElement\<close>: one entry of the flat \<^verbatim>\<open>included\<close> array. The fields of type
  \<^verbatim>\<open>*FlexibleText\<close> hold the decoded text, or \<open>None\<close> for a nil pointer.
\<close>

record GenericIncludedElement =
  ie_Type :: string
  ie_EntityURN :: string
  ie_TrackingURN :: string
  ie_Title :: "string option"
  ie_PrimarySubtitle :: "string option"
  ie_SecondarySubtitle :: "string option"
  ie_NavigationURL :: string
  ie_BadgeText :: "string option"
  ie_PublicIdentifier :: string
  ie_FirstName :: string
  ie_LastName :: string
  ie_Headline :: string
  ie_CompanyName :: string
  ie_CompanyURN :: string
  ie_Description :: string
  ie_DateRange :: "DateRangeResponse option"
  ie_LocationName :: string
  ie_SchoolName :: string
  ie_SchoolURN :: string
  ie_DegreeName :: string
  ie_FieldOfStudy :: string
  ie_Activities :: string
  ie_Name :: string
  ie_EndorsementCount :: int
  ie_EndorsedByViewer :: bool
  ie_TrackingId :: string

text \<open>The zero value of \<^verbatim>\<open>GenericIncludedElement\<close>: an entity with no field set.\<close>

definition GenericIncludedElement_zero :: GenericIncludedElement where
  "GenericIncludedElement_zero =
     \<lparr>ie_Type = [], ie_EntityURN = [], ie_TrackingURN = [], ie_Title = None,
      ie_PrimarySubtitle = None, ie_SecondarySubtitle = None, ie_NavigationURL = [],
      ie_BadgeText = None, ie_PublicIdentifier = [], ie_FirstName = [], ie_LastName = [],
      ie_Headline = [], ie_CompanyName = [], ie_CompanyURN = [], ie_Description = [],
      ie_DateRange = None, ie_LocationName = [], ie_SchoolName = [], ie_SchoolURN = [],
      ie_DegreeName = [], ie_FieldOfStudy = [], ie_Activities = [], ie_Name = [],
      ie_EndorsementCount = 0, ie_EndorsedByViewer = False, ie_TrackingId = []\<rparr>"

record IncludedProfile =
  ip_EntityURN :: string
  ip_PublicIdentifier :: string
  ip_FirstName :: string
  ip_LastName :: string
  ip_Headline :: string

text \<open>
  The decoded responses. The resolver reads only the \<^verbatim>\<open>included\<close> array of a response; the
  root data and the metadata, which no function below reads, are left out of the records.
\<close>

record SearchAPIResponse =
  sr_Included :: "GenericIncludedElement list"

record ProfileAPIResponse =
  pr_Included :: "GenericIncludedElement list"

section \<open>More of the standard library: trimming and sanitising\<close>

text \<open>
  \<^verbatim>\<open>strings.TrimSpace\<close> removes the leading and the trailing white space of a string, as
  \<^verbatim>\<open>unicode.IsSpace\<close> defines it. On the bytes of a string these are the six ASCII
  characters tab, line feed, vertical tab, form feed, carriage return and space, the
  two-byte encodings of U+0085 and U+00A0, and the three-byte encodings of U+1680,
  U+2000 to U+200A, U+2028, U+2029, U+202F, U+205F and U+3000.
\<close>

definition isSpace1 :: "char \<Rightarrow> bool" where
  "isSpace1 c = (c = CHR 0x09 \<or> c = CHR 0x0A \<or> c = CHR 0x0B \<or> c = CHR 0x0C
                 \<or> c = CHR 0x0D \<or> c = CHR 0x20)"

definition isSpace2 :: "char \<Rightarrow> char \<Rightarrow> bool" where
  "isSpace2 c1 c2 = (c1 = CHR 0xC2 \<and> (c2 = CHR 0x85 \<or> c2 = CHR 0xA0))"

definition isSpace3 :: "char \<Rightarrow> char \<Rightarrow> char \<Rightarrow> bool" where
  "isSpace3 c1 c2 c3 =
     ((c1 = CHR 0xE1 \<and> c2 = CHR 0x9A \<and> c3 = CHR 0x80)
      \<or> (c1 = CHR 0xE2 \<and> c2 = CHR 0x80
          \<and> ((CHR 0x80 \<le> c3 \<and> c3 \<le> CHR 0x8A) \<or> c3 = CHR 0xA8 \<or> c3 = CHR 0xA9 \<or> c3 = CHR 0xAF))
      \<or> (c1 = CHR 0xE2 \<and> c2 = CHR 0x81 \<and> c3 = CHR 0x9F)
      \<or> (c1 = CHR 0xE3 \<and> c2 = CHR 0x80 \<and> c3 = CHR 0x80))"

text \<open>Trimming from the left: the white-space runes at the start are dropped.\<close>

fun TrimLeftSpace :: "string \<Rightarrow> string" where
  "TrimLeftSpace (c1 # c2 # c3 # s) =
     (if isSpace1 c1 then TrimLeftSpace (c2 # c3 # s)
      else if isSpace2 c1 c2 then TrimLeftSpace (c3 # s)
      else if isSpace3 c1 c2 c3 then TrimLeftSpace s
      else c1 # c2 # c3 # s)"
| "TrimLeftSpace [c1, c2] =
     (if isSpace1 c1 then TrimLeftSpace [c2]
      else if isSpace2 c1 c2 then []
      else [c1, c2])"
| "TrimLeftSpace [c1] = (if isSpace1 c1 then [] else [c1])"
| "TrimLeftSpace [] = []"

text \<open>Trimming from the right, on the reversed string: the bytes of a rune come last byte
  first.\<close>

fun TrimLeftSpace_rev :: "string \<Rightarrow> string" where
  "TrimLeftSpace_rev (c3 # c2 # c1 # s) =
     (if isSpace1 c3 then TrimLeftSpace_rev (c2 # c1 # s)
      else if isSpace2 c2 c3 then TrimLeftSpace_rev (c1 # s)
      else if isSpace3 c1 c2 c3 then TrimLeftSpace_rev s
      else c3 # c2 # c1 # s)"
| "TrimLeftSpace_rev [c2, c1] =
     (if isSpace1 c2 then TrimLeftSpace_rev [c1]
      else if isSpace2 c1 c2 then []
      else [c2, c1])"
| "TrimLeftSpace_rev [c1] = (if isSpace1 c1 then [] else [c1])"
| "TrimLeftSpace_rev [] = []"

definition strings_TrimSpace :: "string \<Rightarrow> string" where
  "strings_TrimSpace s = rev (TrimLeftSpace_rev (rev (TrimLeftSpace s)))"

section \<open>The graph resolver (profile.go)\<close>

text \<open>
  The constants \<^verbatim>\<open>EntityTypeProfile\<close>, \<^verbatim>\<open>EntityTypePosition\<close>, \<^verbatim>\<open>EntityTypeEducation\<close>,
  \<^verbatim>\<open>EntityTypeEndorsedSkill\<close>, \<^verbatim>\<open>EntityTypeConnection\<close> and \<^verbatim>\<open>EntityTypeFollowing\<close> are
  declared in a file that is not among the sources. The resolver takes them as a
  parameter, so every statement about it holds whatever their values are.
\<close>

record EntityTypes =
  EntityTypeProfile :: string
  EntityTypePosition :: string
  EntityTypeEducation :: string
  EntityTypeEndorsedSkill :: string
  EntityTypeConnection :: string
  EntityTypeFollowing :: string

text \<open>The type tags that the earlier version of the resolver writes as literals.\<close>

definition literalEntityTypes :: EntityTypes where
  "literalEntityTypes =
     \<lparr>EntityTypeProfile = ''com.linkedin.voyager.dash.identity.profile.Profile'',
      EntityTypePosition = ''com.linkedin.voyager.dash.identity.profile.Position'',
      EntityTypeEducation = ''com.linkedin.voyager.dash.identity.profile.Education'',
      EntityTypeEndorsedSkill = ''Skill'',
      EntityTypeConnection = ''Connection'',
      EntityTypeFollowing = ''Following''\<rparr>"

subsection \<open>Helpers\<close>

text \<open>The copy of a wire date and of a wire date range, field by field, that
  \<^verbatim>\<open>parseExperienceData\<close> and \<^verbatim>\<open>parseEducationData\<close> both write out.\<close>

definition copyDate :: "DateResponse \<Rightarrow> Date" where
  "copyDate d = \<lparr>d_Year = dres_Year d, d_Month = dres_Month d, d_Day = dres_Day d\<rparr>"

definition copyDateRange :: "DateRangeResponse \<Rightarrow> DateRange" where
  "copyDateRange r =
     \<lparr>dr_Start = (case drr_Start r of None \<Rightarrow> None | Some d \<Rightarrow> Some (copyDate d)),
      dr_End = (case drr_End r of None \<Rightarrow> None | Some d \<Rightarrow> Some (copyDate d))\<rparr>"

definition extractCountryCode :: "GenericIncludedElement \<Rightarrow> string" where
  "extractCountryCode item = []"

definition parseConnectionCount :: "GenericIncludedElement \<Rightarrow> error + int" where
  "parseConnectionCount item = Inl (Errorf ''not implemented'')"

definition parseFollowerCount :: "GenericIncludedElement \<Rightarrow> error + int" where
  "parseFollowerCount item = Inl (Errorf ''not implemented'')"

definition extractProfileImageURN :: "GenericIncludedElement \<Rightarrow> string" where
  "extractProfileImageURN item = []"

text \<open>A value of type \<^verbatim>\<open>interface{}\<close> read from raw JSON.\<close>

datatype rawValue = RawBool bool | RawString string | RawOther

definition extractFieldFromRawJSON :: "GenericIncludedElement \<Rightarrow> string \<Rightarrow> rawValue option" where
  "extractFieldFromRawJSON item fieldName = None"

subsection \<open>The nested collections\<close>

text \<open>Each collection is built by a loop over the \<^verbatim>\<open>included\<close> array that appends to a
  slice: a left fold whose accumulator is the slice.\<close>

definition experienceOf :: "GenericIncludedElement \<Rightarrow> Experience" where
  "experienceOf item =
     \<lparr>ex_EntityURN = ie_EntityURN item,
      ex_CompanyName = ie_CompanyName item,
      ex_CompanyURN = ie_CompanyURN item,
      ex_Title = (case ie_Title item of None \<Rightarrow> [] | Some t \<Rightarrow> t),
      ex_Description = ie_Description item,
      ex_DateRange = (case ie_DateRange item of None \<Rightarrow> None | Some r \<Rightarrow> Some (copyDateRange r)),
      ex_LocationName = ie_LocationName item,
      ex_MultiLocaleCompanyName = []\<rparr>"

definition parseExperienceData :: "EntityTypes \<Rightarrow> ProfileAPIResponse \<Rightarrow> string \<Rightarrow> Experience list" where
  "parseExperienceData T apiResponse profileURN =
     foldl (\<lambda>experiences item.
              if ie_Type item = EntityTypePosition T then experiences @ [experienceOf item]
              else experiences)
           [] (pr_Included apiResponse)"

definition educationOf :: "GenericIncludedElement \<Rightarrow> Education" where
  "educationOf item =
     \<lparr>ed_EntityURN = ie_EntityURN item,
      ed_SchoolName = ie_SchoolName item,
      ed_SchoolURN = ie_SchoolURN item,
      ed_DegreeName = ie_DegreeName item,
      ed_FieldOfStudy = ie_FieldOfStudy item,
      ed_DateRange = (case ie_DateRange item of None \<Rightarrow> None | Some r \<Rightarrow> Some (copyDateRange r)),
      ed_Description = ie_Description item,
      ed_Activities = ie_Activities item\<rparr>"

definition parseEducationData :: "EntityTypes \<Rightarrow> ProfileAPIResponse \<Rightarrow> string \<Rightarrow> Education list" where
  "parseEducationData T apiResponse profileURN =
     foldl (\<lambda>education item.
              if ie_Type item = EntityTypeEducation T then education @ [educationOf item]
              else education)
           [] (pr_Included apiResponse)"

definition skillOf :: "GenericIncludedElement \<Rightarrow> Skill" where
  "skillOf item =
     \<lparr>sk_EntityURN = ie_EntityURN item,
      sk_Name = ie_Name item,
      sk_EndorsementCount = ie_EndorsementCount item,
      sk_EndorsedByViewer = ie_EndorsedByViewer item\<rparr>"

definition parseSkillsData :: "EntityTypes \<Rightarrow> ProfileAPIResponse \<Rightarrow> string \<Rightarrow> Skill list" where
  "parseSkillsData T apiResponse profileURN =
     foldl (\<lambda>skills item.
              if strings_Contains (ie_Type item) (EntityTypeEndorsedSkill T) then skills @ [skillOf item]
              else skills)
           [] (pr_Included apiResponse)"

subsection \<open>The optional structures\<close>

definition parseLocationData :: "EntityTypes \<Rightarrow> ProfileAPIResponse \<Rightarrow> string \<Rightarrow> ProfileLocation option" where
  "parseLocationData T apiResponse profileURN =
     (case find (\<lambda>item. ie_Type item = EntityTypeProfile T \<and> ie_EntityURN item = profileURN)
                (pr_Included apiResponse) of
        Some item \<Rightarrow>
          Some \<lparr>pl_CountryCode = extractCountryCode item, pl_PostalCode = [], pl_PreferredGeoPlace = []\<rparr>
      | None \<Rightarrow> None)"

definition parseConnectionData :: "EntityTypes \<Rightarrow> ProfileAPIResponse \<Rightarrow> string \<Rightarrow> ConnectionInfo option" where
  "parseConnectionData T apiResponse profileURN =
     Some (foldl (\<lambda>connectionInfo item.
                    (let connectionInfo =
                           (if strings_Contains (ie_Type item) (EntityTypeConnection T) then
                              (case parseConnectionCount item of
                                 Inr count \<Rightarrow> connectionInfo\<lparr>ci_ConnectionCount := count\<rparr>
                               | Inl err \<Rightarrow> connectionInfo)
                            else connectionInfo)
                     in if strings_Contains (ie_Type item) (EntityTypeFollowing T) then
                          (case parseFollowerCount item of
                             Inr count \<Rightarrow> connectionInfo\<lparr>ci_FollowerCount := count\<rparr>
                           | Inl err \<Rightarrow> connectionInfo)
                        else connectionInfo))
                 \<lparr>ci_ConnectionCount = 0, ci_FollowerCount = 0, ci_FollowingCount = 0, ci_Following = False\<rparr>
                 (pr_Included apiResponse))"

definition parseProfilePictureData :: "EntityTypes \<Rightarrow> ProfileAPIResponse \<Rightarrow> string \<Rightarrow> ProfilePicture option" where
  "parseProfilePictureData T apiResponse profileURN =
     (case find (\<lambda>item. ie_Type item = EntityTypeProfile T \<and> ie_EntityURN item = profileURN)
                (pr_Included apiResponse) of
        Some item \<Rightarrow>
          Some \<lparr>pp_DisplayImageUrn = extractProfileImageURN item, pp_PhotoFilterPicture = [],
                pp_RootURL = [], pp_A11yText = ie_FirstName item @ '' '' @ ie_LastName item\<rparr>
      | None \<Rightarrow> None)"

definition parseSimpleProfileFields ::
  "LinkedInProfile \<Rightarrow> ProfileAPIResponse \<Rightarrow> GenericIncludedElement \<Rightarrow> LinkedInProfile" where
  "parseSimpleProfileFields profile apiResponse profileEntity =
     (let profile = (case extractFieldFromRawJSON profileEntity ''creator'' of
                       Some (RawBool creator) \<Rightarrow> profile\<lparr>IsCreator := creator\<rparr>
                     | _ \<Rightarrow> profile);
          profile = (case extractFieldFromRawJSON profileEntity ''memorialized'' of
                       Some (RawBool memorialized) \<Rightarrow> profile\<lparr>IsMemorialized := memorialized\<rparr>
                     | _ \<Rightarrow> profile);
          profile = (case extractFieldFromRawJSON profileEntity ''tempStatus'' of
                       Some (RawString tempStatus) \<Rightarrow> profile\<lparr>TempStatus := tempStatus\<rparr>
                     | _ \<Rightarrow> profile);
          profile = (case extractFieldFromRawJSON profileEntity ''tempStatusEmoji'' of
                       Some (RawString tempEmoji) \<Rightarrow> profile\<lparr>TempStatusEmoji := tempEmoji\<rparr>
                     | _ \<Rightarrow> profile)
      in profile)"

subsection \<open>parseProfileFromAPIResponse\<close>

text \<open>The search for the anchor: the first entity of the profile type whose public
  identifier is the requested one (the loop stops at the first match).\<close>

definition findProfileEntity :: "EntityTypes \<Rightarrow> ProfileAPIResponse \<Rightarrow> string \<Rightarrow> GenericIncludedElement option" where
  "findProfileEntity T apiResponse publicIdentifier =
     find (\<lambda>item. ie_Type item = EntityTypeProfile T \<and> ie_PublicIdentifier item = publicIdentifier)
          (pr_Included apiResponse)"

definition parseProfileFromAPIResponse ::
  "EntityTypes \<Rightarrow> ProfileAPIResponse \<Rightarrow> string \<Rightarrow> error + LinkedInProfile" where
  "parseProfileFromAPIResponse T apiResponse publicIdentifier =
     (case findProfileEntity T apiResponse publicIdentifier of
        None \<Rightarrow>
          Inl (Errorf (''profile not found in API response for publicIdentifier: '' @ publicIdentifier))
      | Some profileEntity \<Rightarrow>
          (let profile = LinkedInProfile_zero
                 \<lparr>PublicIdentifier := ie_PublicIdentifier profileEntity,
                  URN := ie_EntityURN profileEntity,
                  FirstName := ie_FirstName profileEntity,
                  LastName := ie_LastName profileEntity,
                  Headline := ie_Headline profileEntity,
                  ProfileURL := ''https://www.linkedin.com/in/'' @ publicIdentifier @ ''/''\<rparr>;
               profile = profile\<lparr>FullName := strings_TrimSpace (FirstName profile @ '' '' @ LastName profile)\<rparr>;
               profile = profile\<lparr>Experience := parseExperienceData T apiResponse (ie_EntityURN profileEntity)\<rparr>;
               profile = profile\<lparr>Education := parseEducationData T apiResponse (ie_EntityURN profileEntity)\<rparr>;
               profile = profile\<lparr>Skills := parseSkillsData T apiResponse (ie_EntityURN profileEntity)\<rparr>;
               profile = profile\<lparr>LocationDetails := parseLocationData T apiResponse (ie_EntityURN profileEntity)\<rparr>;
               profile = profile\<lparr>ConnectionInfo := parseConnectionData T apiResponse (ie_EntityURN profileEntity)\<rparr>;
               profile = profile\<lparr>ProfilePicture := parseProfilePictureData T apiResponse (ie_EntityURN profileEntity)\<rparr>
           in Inr (parseSimpleProfileFields profile apiResponse profileEntity)))"

subsection \<open>Validation and the entry points\<close>

definition sanitizeTextString :: "string \<Rightarrow> string" where
  "sanitizeTextString s = strings_TrimSpace (filter (\<lambda>c. c \<noteq> CHR 0x00) s)"

text \<open>\<^verbatim>\<open>validateProfileData\<close> takes a pointer, \<open>None\<close> when nil, and sanitises the text
  fields of the profile in place: the model returns the sanitised profile.\<close>

definition validateProfileData :: "LinkedInProfile option \<Rightarrow> error + LinkedInProfile" where
  "validateProfileData p =
     (case p of
        None \<Rightarrow> Inl (Errorf ''profile cannot be nil'')
      | Some profile \<Rightarrow>
          if PublicIdentifier profile = [] then Inl (Errorf ''publicIdentifier is required'')
          else Inr (profile\<lparr>FirstName := sanitizeTextString (FirstName profile),
                            LastName := sanitizeTextString (LastName profile),
                            FullName := sanitizeTextString (FullName profile),
                            Headline := sanitizeTextString (Headline profile),
                            Summary := sanitizeTextString (Summary profile)\<rparr>))"

definition extractPublicIdentifierFromResponse :: "EntityTypes \<Rightarrow> ProfileAPIResponse \<Rightarrow> string" where
  "extractPublicIdentifierFromResponse T apiResponse =
     (case find (\<lambda>item. ie_Type item = EntityTypeProfile T \<and> ie_PublicIdentifier item \<noteq> [])
                (pr_Included apiResponse) of
        Some item \<Rightarrow> ie_PublicIdentifier item
      | None \<Rightarrow> [])"

definition convertAPIResponseToLinkedInProfile ::
  "EntityTypes \<Rightarrow> ProfileAPIResponse \<Rightarrow> string \<Rightarrow> error + LinkedInProfile" where
  "convertAPIResponseToLinkedInProfile T apiResponse publicIdentifier =
     (case parseProfileFromAPIResponse T apiResponse publicIdentifier of
        Inl err \<Rightarrow> Inl err
      | Inr profile \<Rightarrow>
          (case validateProfileData (Some profile) of
             Inl err \<Rightarrow> Inl err
           | Inr profile \<Rightarrow> Inr profile))"

text \<open>\<^verbatim>\<open>ParseFromJSON\<close>; the decoder \<^verbatim>\<open>json.Unmarshal\<close> into a \<^verbatim>\<open>ProfileAPIResponse\<close> is a
  parameter.\<close>

definition ParseFromJSON ::
  "EntityTypes \<Rightarrow> (string \<Rightarrow> error + ProfileAPIResponse) \<Rightarrow> string \<Rightarrow> error + LinkedInProfile" where
  "ParseFromJSON T json_Unmarshal jsonData =
     (case json_Unmarshal jsonData of
        Inl err \<Rightarrow> Inl (Wrapped ''failed to unmarshal JSON: '' err [])
      | Inr apiResponse \<Rightarrow>
          (let publicIdentifier = extractPublicIdentifierFromResponse T apiResponse
           in if publicIdentifier = [] then
                Inl (Errorf ''could not extract publicIdentifier from response'')
              else
                (case parseProfileFromAPIResponse T apiResponse publicIdentifier of
                   Inl err \<Rightarrow> Inl (Wrapped ''failed to parse profile: '' err [])
                 | Inr profile \<Rightarrow>
                     (case validateProfileData (Some profile) of
                        Inl err \<Rightarrow> Inl (Wrapped ''profile validation failed: '' err [])
                      | Inr profile \<Rightarrow> Inr profile))))"

section \<open>The earlier version of the resolver\<close>





section \<open>Flexible text (models.go)\<close>

text \<open>
  JSON values. \<^verbatim>\<open>UnmarshalJSON\<close> receives the bytes of one JSON value; the model pairs the
  bytes with the value they denote (the JSON syntax itself belongs to \<^verbatim>\<open>encoding/json\<close>).
  A number keeps its literal text.
\<close>

datatype json =
    JNull
  | JBool bool
  | JNumber string
  | JString string
  | JArray "json list"
  | JObject "(string \<times> json) list"

record jsonData =
  data_bytes :: string
  data_value :: json

text \<open>
  \<^verbatim>\<open>json.Unmarshal(data, &s)\<close> for a string variable \<open>s\<close> that holds the empty string: the
  new value of \<open>s\<close>, or \<open>None\<close> when the call returns an error. A JSON string is stored,
  a JSON null leaves the variable as it is, any other value is a type error.
\<close>

definition unmarshal_string :: "json \<Rightarrow> string option" where
  "unmarshal_string v =
     (case v of JString s \<Rightarrow> Some s | JNull \<Rightarrow> Some [] | _ \<Rightarrow> None)"

text \<open>The decoder matches an object key with a field name exactly or, failing that,
  without regard to case: for the name \<^verbatim>\<open>text\<close>, byte by byte in either case.\<close>

definition matchesFieldText :: "string \<Rightarrow> bool" where
  "matchesFieldText key = list_all2 (\<lambda>c (l, u). c = l \<or> c = u) key (zip ''text'' ''TEXT'')"

text \<open>
  \<^verbatim>\<open>json.Unmarshal(data, &textObj)\<close> for the struct with the one field \<^verbatim>\<open>Text string\<close>,
  tagged \<^verbatim>\<open>text\<close>, holding the empty string: the new value of the field, or \<open>None\<close> when
  the call returns an error. The members of an object are read in order; a member that
  matches the field stores a string, skips a null and is a type error otherwise; other
  members are ignored. A null leaves the struct as it is; any other value is a type
  error.
\<close>

fun unmarshal_members :: "(string \<times> json) list \<Rightarrow> string \<Rightarrow> string option" where
  "unmarshal_members [] text = Some text"
| "unmarshal_members ((key, v) # members) text =
     (if matchesFieldText key then
        (case v of
           JString s \<Rightarrow> unmarshal_members members s
         | JNull \<Rightarrow> unmarshal_members members text
         | _ \<Rightarrow> None)
      else unmarshal_members members text)"

definition unmarshal_textObj :: "json \<Rightarrow> string option" where
  "unmarshal_textObj v =
     (case v of JObject members \<Rightarrow> unmarshal_members members [] | JNull \<Rightarrow> Some [] | _ \<Rightarrow> None)"

text \<open>\<^verbatim>\<open>FlexibleText.UnmarshalJSON\<close>: the decoded text, or the error.\<close>

definition FlexibleText_UnmarshalJSON :: "jsonData \<Rightarrow> error + string" where
  "FlexibleText_UnmarshalJSON data =
     (case (case unmarshal_textObj (data_value data) of
              Some text \<Rightarrow> if text \<noteq> [] then Some text else None
            | None \<Rightarrow> None) of
        Some text \<Rightarrow> Inr text
      | None \<Rightarrow>
          (case unmarshal_string (data_value data) of
             Some s \<Rightarrow> Inr s
           | None \<Rightarrow>
               if data_bytes data = ''null'' then Inr []
               else Inl (Errorf (''cannot unmarshal '' @ data_bytes data @ '' into FlexibleText''))))"

section \<open>SearchProfiles (search.go)\<close>

text \<open>
  The sources hold three versions of \<^verbatim>\<open>SearchProfiles\<close>. The one modelled is the latest,
  which passes the paging count on and lets the arguments override two headers; the
  others differ from it only in leaving these out, or in not reading the response yet.
\<close>

subsection \<open>Configuration and constants\<close>

record AuthCredentials =
  LiAtCookie :: string
  CSRFToken :: string
  JSESSIONID :: string

record Config =
  cfg_Auth :: AuthCredentials
  cfg_UserAgent :: string
  cfg_Referer :: string
  cfg_XLiPageInstance :: string
  cfg_XLiTrack :: string

definition VoyagerBaseURL :: string where
  "VoyagerBaseURL = ''https://www.linkedin.com/voyager/api/graphql''"

definition DefaultSearchQueryID :: string where
  "DefaultSearchQueryID = ''voyagerSearchDashClusters.7cdf88d3366ad02cc5a3862fb9a24085''"

text \<open>An \<^verbatim>\<open>http.Header\<close> maps a key to its values, as \<^verbatim>\<open>url.Values\<close> does; the keys that
  \<^verbatim>\<open>SearchProfiles\<close> sets are in canonical form already.\<close>

type_synonym Header = Values

definition Header_Set :: "Header \<Rightarrow> string \<Rightarrow> string \<Rightarrow> Header" where
  "Header_Set h key val = Values_Set h key val"

text \<open>A double quote, and a string between double quotes.\<close>

definition dq :: string where
  "dq = [CHR 0x22]"

definition quoted :: "string \<Rightarrow> string" where
  "quoted s = dq @ s @ dq"

definition defaultXLiPageInstance :: string where
  "defaultXLiPageInstance = ''urn:li:page:d_flagship3_search_srp_people;placeholder''"

definition defaultXLiTrack :: string where
  "defaultXLiTrack =
     ''{'' @ quoted ''clientVersion'' @ '':'' @ quoted ''1.13.35368''
     @ '','' @ quoted ''mpVersion'' @ '':'' @ quoted ''1.13.35368''
     @ '','' @ quoted ''osName'' @ '':'' @ quoted ''web''
     @ '','' @ quoted ''timezoneOffset'' @ '':-7''
     @ '','' @ quoted ''timezone'' @ '':'' @ quoted ''America/Los_Angeles''
     @ '','' @ quoted ''deviceFormFactor'' @ '':'' @ quoted ''DESKTOP''
     @ '','' @ quoted ''mpName'' @ '':'' @ quoted ''voyager-web''
     @ '','' @ quoted ''displayDensity'' @ '':2''
     @ '','' @ quoted ''displayWidth'' @ '':1920''
     @ '','' @ quoted ''displayHeight'' @ '':1080}''"

subsection \<open>The request\<close>

text \<open>The block \<^emph>\<open>Construct SearchVariables\<close> of \<^verbatim>\<open>SearchProfiles\<close>.\<close>

definition searchVariables :: "ProfileSearchArgs \<Rightarrow> SearchVariables" where
  "searchVariables args =
     (let querySubQuery =
            \<lparr>sq_Keywords = args_Keywords args,
             sq_FlagshipSearchIntent = ''SEARCH_SRP'',
             sq_QueryParameters = [],
             sq_IncludeFiltersInResponse = False\<rparr>;
          querySubQuery =
            (if length (args_NetworkFilters args) > 0 then
               querySubQuery\<lparr>sq_QueryParameters :=
                 sq_QueryParameters querySubQuery
                 @ [\<lparr>qp_Key = ''network'', qp_Value = args_NetworkFilters args\<rparr>]\<rparr>
             else querySubQuery);
          querySubQuery =
            querySubQuery\<lparr>sq_QueryParameters :=
              sq_QueryParameters querySubQuery @ [\<lparr>qp_Key = ''resultType'', qp_Value = [''PEOPLE'']\<rparr>]\<rparr>
      in \<lparr>sv_Start = args_Start args,
          sv_Count = args_Count args,
          sv_Origin = ''FACETED_SEARCH'',
          sv_Query = querySubQuery\<rparr>)"

text \<open>The block \<^emph>\<open>Prepare Headers\<close> of \<^verbatim>\<open>SearchProfiles\<close>.\<close>

definition searchHeaders :: "ProfileSearchArgs \<Rightarrow> Header" where
  "searchHeaders args =
     (let customHeaders = Header_Set [] ''Accept'' ''application/vnd.linkedin.normalized+json+2.1'';
          refererQueryParts = [''keywords='' @ url_QueryEscape (args_Keywords args)];
          refererQueryParts =
            (if length (args_NetworkFilters args) > 0 then
               (let networkFilterString =
                      ''['' @ dq @ strings_Join (args_NetworkFilters args) (dq @ '','' @ dq) @ dq @ '']''
                in refererQueryParts @ [''network='' @ networkFilterString])
             else refererQueryParts);
          refererQueryParts = refererQueryParts @ [''origin=FACETED_SEARCH''];
          baseURLForReferer = ''https://www.linkedin.com/search/results/people/'';
          fullRefererURL = baseURLForReferer @ ''?'' @ strings_Join refererQueryParts ''&'';
          customHeaders = Header_Set customHeaders ''Referer'' fullRefererURL;
          xLiPageInstance =
            (if args_XLiPageInstance args \<noteq> [] then args_XLiPageInstance args
             else defaultXLiPageInstance);
          customHeaders = Header_Set customHeaders ''X-Li-Page-Instance'' xLiPageInstance;
          customHeaders = Header_Set customHeaders ''X-Li-Pem-Metadata'' ''Voyager - People SRP=search-results'';
          xLiTrack = (if args_XLiTrack args \<noteq> [] then args_XLiTrack args else defaultXLiTrack)
      in Header_Set customHeaders ''X-Li-Track'' xLiTrack)"

subsection \<open>The profiles of a search response\<close>

text \<open>First pass: the profile entities, by URN.\<close>

definition collectProfileData :: "SearchAPIResponse \<Rightarrow> (string \<rightharpoonup> IncludedProfile)" where
  "collectProfileData apiResponse =
     foldl (\<lambda>profileDataMap item.
              if ie_Type item = ''com.linkedin.voyager.dash.identity.profile.Profile'' then
                profileDataMap(ie_EntityURN item \<mapsto>
                  \<lparr>ip_EntityURN = ie_EntityURN item,
                   ip_PublicIdentifier = ie_PublicIdentifier item,
                   ip_FirstName = ie_FirstName item,
                   ip_LastName = ie_LastName item,
                   ip_Headline = ie_Headline item\<rparr>)
              else profileDataMap)
           Map.empty (sr_Included apiResponse)"

text \<open>Second pass: one profile for each search hit that has its three texts; a hit that
  lacks one is skipped.\<close>

definition buildProfiles :: "(string \<rightharpoonup> IncludedProfile) \<Rightarrow> SearchAPIResponse \<Rightarrow> LinkedInProfile list" where
  "buildProfiles profileDataMap apiResponse =
     foldl (\<lambda>profiles item.
              if ie_Type item = ''com.linkedin.voyager.dash.search.EntityResultViewModel'' then
                (case (ie_Title item, ie_PrimarySubtitle item, ie_SecondarySubtitle item) of
                   (Some title, Some primarySubtitle, Some secondarySubtitle) \<Rightarrow>
                     (let profile = LinkedInProfile_zero
                            \<lparr>URN := ie_TrackingURN item,
                             FullName := title,
                             Headline := primarySubtitle,
                             Location := secondarySubtitle,
                             ProfileURL := ie_NavigationURL item\<rparr>;
                          profile =
                            (if ie_PublicIdentifier item \<noteq> [] then
                               profile\<lparr>PublicIdentifier := ie_PublicIdentifier item\<rparr>
                             else profile);
                          profile =
                            (case profileDataMap (ie_TrackingURN item) of
                               Some linkedProfileData \<Rightarrow>
                                 if PublicIdentifier profile = [] \<and> ip_PublicIdentifier linkedProfileData \<noteq> [] then
                                   profile\<lparr>PublicIdentifier := ip_PublicIdentifier linkedProfileData\<rparr>
                                 else profile
                             | None \<Rightarrow> profile)
                      in profiles @ [profile])
                 | _ \<Rightarrow> profiles)
              else profiles)
           [] (sr_Included apiResponse)"

subsection \<open>SearchProfiles\<close>

text \<open>
  The collaborators of \<^verbatim>\<open>SearchProfiles\<close> are parameters: \<open>url_Parse\<close> is \<^verbatim>\<open>url.Parse\<close>;
  \<open>makeRequest\<close> is the client's HTTP call, from the method, the URL and the headers to
  an error or the status code and the body; \<open>json_Unmarshal\<close> is \<^verbatim>\<open>json.Unmarshal\<close> into a
  \<^verbatim>\<open>SearchAPIResponse\<close>.
\<close>

definition SearchProfiles ::
  "(string \<Rightarrow> error + URL) \<Rightarrow> (string \<Rightarrow> string \<Rightarrow> Header \<Rightarrow> error + int \<times> string)
   \<Rightarrow> (string \<Rightarrow> error + SearchAPIResponse) \<Rightarrow> Config \<Rightarrow> ProfileSearchArgs
   \<Rightarrow> error + LinkedInProfile list" where
  "SearchProfiles url_Parse makeRequest json_Unmarshal config args =
     (if LiAtCookie (cfg_Auth config) = [] \<or> CSRFToken (cfg_Auth config) = [] then Inl ErrAuthMissing
      else if args_Keywords args = [] then Inl ErrKeywordsMissing
      else
        (case buildGraphQLURL url_Parse VoyagerBaseURL DefaultSearchQueryID (searchVariables args) of
           Inl err \<Rightarrow> Inl (Wrapped [] ErrRequestBuildFailed ('': '' @ Error err))
         | Inr requestURL \<Rightarrow>
             (case makeRequest ''GET'' requestURL (searchHeaders args) of
                Inl err \<Rightarrow> Inl (Wrapped [] ErrRequestFailed ('': '' @ Error err))
              | Inr (statusCode, respBodyBytes) \<Rightarrow>
                  if statusCode \<noteq> 200 then
                    (if statusCode = 401 \<or> statusCode = 403 then
                       Inl (Wrapped [] ErrUnauthorized
                              ('': status '' @ fmt_d statusCode @ '', body: '' @ respBodyBytes))
                     else if statusCode = 429 then
                       Inl (Wrapped [] ErrRateLimited
                              ('': status '' @ fmt_d statusCode @ '', body: '' @ respBodyBytes))
                     else
                       Inl (Wrapped [] ErrRequestFailed
                              ('': received status code '' @ fmt_d statusCode @ '', body: '' @ respBodyBytes)))
                  else
                    (case json_Unmarshal respBodyBytes of
                       Inl err \<Rightarrow>
                         Inl (Wrapped [] ErrResponseParseFailed
                                ('': '' @ Error err @ ''. Raw response: '' @ respBodyBytes))
                     | Inr apiResponse \<Rightarrow>
                         (let profiles = buildProfiles (collectProfileData apiResponse) apiResponse
                          in if length profiles = 0 then Inr [] else Inr profiles)))))"

section \<open>Concrete inputs\<close>

text \<open>The search of the specification's scenario: the keywords \<^verbatim>\<open>data scientist\<close>, the network
  filters \<^verbatim>\<open>F\<close> and \<^verbatim>\<open>O\<close>, start 0, and nothing else.\<close>

definition scenarioArgs :: ProfileSearchArgs where
  "scenarioArgs =
     \<lparr>args_Keywords = ''data scientist'', args_NetworkFilters = [''F'', ''O''], args_Start = 0,
      args_Count = 0, args_XLiPageInstance = [], args_XLiTrack = []\<rparr>"

text \<open>A \<^verbatim>\<open>url.Parse\<close> for base URLs that have neither a query nor a fragment, as
  \<^verbatim>\<open>VoyagerBaseURL\<close>: the whole text is the head of the URL.\<close>

definition plainParse :: "string \<Rightarrow> error + URL" where
  "plainParse s =
     Inr \<lparr>url_Head = s, url_Values = [], url_RawQuery = [], url_ForceQuery = False, url_Tail = []\<rparr>"

text \<open>The payload of the specification's scenario: the anchor Jane Doe, with the identifier
  \<^verbatim>\<open>jane-doe\<close>, between two position entities.\<close>

definition janeDoe :: GenericIncludedElement where
  "janeDoe = GenericIncludedElement_zero
     \<lparr>ie_Type := ''com.linkedin.voyager.dash.identity.profile.Profile'',
      ie_EntityURN := ''urn:li:fsd_profile:jane'',
      ie_PublicIdentifier := ''jane-doe'',
      ie_FirstName := ''Jane'',
      ie_LastName := ''Doe''\<rparr>"

definition positionAt :: "string \<Rightarrow> string \<Rightarrow> GenericIncludedElement" where
  "positionAt urn company = GenericIncludedElement_zero
     \<lparr>ie_Type := ''com.linkedin.voyager.dash.identity.profile.Position'',
      ie_EntityURN := urn,
      ie_CompanyName := company\<rparr>"

definition scenarioPayload :: ProfileAPIResponse where
  "scenarioPayload =
     \<lparr>pr_Included = [positionAt ''urn:li:fsd_profilePosition:1'' ''Acme'', janeDoe,
                     positionAt ''urn:li:fsd_profilePosition:2'' ''Initech'']\<rparr>"

text \<open>An anchor that has a first name and no last name.\<close>

definition janeOnly :: GenericIncludedElement where
  "janeOnly = GenericIncludedElement_zero
     \<lparr>ie_Type := ''com.linkedin.voyager.dash.identity.profile.Profile'',
      ie_EntityURN := ''urn:li:fsd_profile:jane'',
      ie_PublicIdentifier := ''jane'',
      ie_FirstName := ''Jane''\<rparr>"

definition janeOnlyPayload :: ProfileAPIResponse where
  "janeOnlyPayload = \<lparr>pr_Included = [janeOnly]\<rparr>"

text \<open>A profile entity without a public identifier.\<close>

definition anonymousPayload :: ProfileAPIResponse where
  "anonymousPayload =
     \<lparr>pr_Included = [GenericIncludedElement_zero
                       \<lparr>ie_Type := ''com.linkedin.voyager.dash.identity.profile.Profile'',
                        ie_EntityURN := ''urn:li:fsd_profile:anonymous''\<rparr>]\<rparr>"

text \<open>A payload with two profiles; the position, the education and the skill carry the
  second profile in their URNs.\<close>

definition johnRoe :: GenericIncludedElement where
  "johnRoe = GenericIncludedElement_zero
     \<lparr>ie_Type := ''com.linkedin.voyager.dash.identity.profile.Profile'',
      ie_EntityURN := ''urn:li:fsd_profile:john'',
      ie_PublicIdentifier := ''john-roe'',
      ie_FirstName := ''John'',
      ie_LastName := ''Roe''\<rparr>"

definition twoProfilesPayload :: ProfileAPIResponse where
  "twoProfilesPayload =
     \<lparr>pr_Included =
        [janeDoe, johnRoe,
         positionAt ''urn:li:fsd_profilePosition:(john,1)'' ''Initech'',
         GenericIncludedElement_zero
           \<lparr>ie_Type := ''com.linkedin.voyager.dash.identity.profile.Education'',
            ie_EntityURN := ''urn:li:fsd_profileEducation:(john,2)''\<rparr>,
         GenericIncludedElement_zero
           \<lparr>ie_Type := ''com.linkedin.voyager.dash.identity.profile.Skill'',
            ie_EntityURN := ''urn:li:fsd_skill:(john,3)''\<rparr>]\<rparr>"

text \<open>A configuration with both credentials, the body of a response whose search hit has
  a number for its title, and a search that gives the keywords only.\<close>

definition validConfig :: Config where
  "validConfig =
     \<lparr>cfg_Auth = \<lparr>LiAtCookie = ''li-at-cookie'', CSRFToken = ''ajax:1'', JSESSIONID = ''ajax:1''\<rparr>,
      cfg_UserAgent = [], cfg_Referer = [], cfg_XLiPageInstance = [], cfg_XLiTrack = []\<rparr>"


definition keywordsOnlyArgs :: ProfileSearchArgs where
  "keywordsOnlyArgs =
     \<lparr>args_Keywords = ''investor'', args_NetworkFilters = [], args_Start = 0,
      args_Count = 0, args_XLiPageInstance = [], args_XLiTrack = []\<rparr>"

section \<open>Properties of the query encoder\<close>

subsection \<open>Substrings, joining and splitting\<close>

lemma strings_Contains_iff: "strings_Contains s substr \<longleftrightarrow> (\<exists>p q. s = p @ substr @ q)"
proof (induction s)
  case Nil
  then show ?case by auto
next
  case (Cons c s)
  show ?case
  proof
    assume "strings_Contains (c # s) substr"
    then consider "prefix substr (c # s)" | "strings_Contains s substr" by auto
    then show "\<exists>p q. c # s = p @ substr @ q"
    proof cases
      case 1
      then obtain q where "c # s = substr @ q" by (auto simp: prefix_def)
      then have "c # s = [] @ substr @ q" by simp
      then show ?thesis by blast
    next
      case 2
      with Cons.IH obtain p q where "s = p @ substr @ q" by auto
      then have "c # s = (c # p) @ substr @ q" by simp
      then show ?thesis by blast
    qed
  next
    assume "\<exists>p q. c # s = p @ substr @ q"
    then obtain p q where pq: "c # s = p @ substr @ q" by auto
    show "strings_Contains (c # s) substr"
    proof (cases p)
      case Nil
      with pq have "prefix substr (c # s)" by (simp add: prefix_def)
      then show ?thesis by simp
    next
      case (Cons a p')
      with pq have "s = p' @ substr @ q" by simp
      with Cons.IH have "strings_Contains s substr" by blast
      then show ?thesis by simp
    qed
  qed
qed

lemma strings_Contains_mid: "strings_Contains (p @ substr @ q) substr"
  by (auto simp: strings_Contains_iff)

lemma strings_Contains_trans:
  "strings_Contains s t \<Longrightarrow> strings_Contains t u \<Longrightarrow> strings_Contains s u"
proof -
  assume "strings_Contains s t" and "strings_Contains t u"
  then obtain p q p' q' where "s = p @ t @ q" and "t = p' @ u @ q'"
    by (auto simp: strings_Contains_iff)
  then have "s = (p @ p') @ u @ (q' @ q)" by simp
  then show ?thesis unfolding strings_Contains_iff by blast
qed

lemma strings_Join_member:
  "x \<in> set xs \<Longrightarrow> \<exists>p q. strings_Join xs sep = p @ x @ q"
proof (induction xs sep rule: strings_Join.induct)
  case (1 sep)
  then show ?case by simp
next
  case (2 e sep)
  then have "strings_Join [e] sep = [] @ x @ []" by simp
  then show ?case by blast
next
  case (3 e v va sep)
  show ?case
  proof (cases "x = e")
    case True
    then have "strings_Join (e # v # va) sep = [] @ x @ (sep @ strings_Join (v # va) sep)" by simp
    then show ?thesis by blast
  next
    case False
    with 3 obtain p q where "strings_Join (v # va) sep = p @ x @ q" by auto
    then have "strings_Join (e # v # va) sep = (e @ sep @ p) @ x @ q" by simp
    then show ?thesis by blast
  qed
qed

lemma foldl_appendQueryParam:
  "foldl appendQueryParam acc ps =
     acc @ map (\<lambda>p. ''(key:'' @ qp_Key p @ '',value:List('' @ strings_Join (qp_Value p) '','' @ ''))'') ps"
  by (induction ps arbitrary: acc) (simp_all add: appendQueryParam_def stringSliceToString_def)

lemma variablesString_split:
  "variablesString variables =
     (''(start:'' @ fmt_d (sv_Start variables)
       @ '',count:'' @ fmt_d (sv_Count variables)
       @ '',origin:'' @ sv_Origin variables
       @ '',query:(keywords:'' @ url_QueryEscape (sq_Keywords (sv_Query variables))
       @ '',flagshipSearchIntent:'' @ sq_FlagshipSearchIntent (sv_Query variables)
       @ '',queryParameters:List('')
     @ strings_Join (map (\<lambda>p. ''(key:'' @ qp_Key p @ '',value:List('' @ strings_Join (qp_Value p) '','' @ ''))'')
                         (sq_QueryParameters (sv_Query variables))) '',''
     @ ('')'' @ '',includeFiltersInResponse:'' @ fmt_t (sq_IncludeFiltersInResponse (sv_Query variables))
        @ ''))'')"
  by (simp add: variablesString_def Let_def foldl_appendQueryParam stringSliceToString_def)

lemma variablesString_contains_param:
  assumes "p \<in> set (sq_QueryParameters (sv_Query variables))"
  shows "strings_Contains (variablesString variables)
           (''(key:'' @ qp_Key p @ '',value:List('' @ strings_Join (qp_Value p) '','' @ ''))'')"
proof -
  let ?entry = "\<lambda>p. ''(key:'' @ qp_Key p @ '',value:List('' @ strings_Join (qp_Value p) '','' @ ''))''"
  let ?params = "map ?entry (sq_QueryParameters (sv_Query variables))"
  from assms have "?entry p \<in> ?entry ` set (sq_QueryParameters (sv_Query variables))"
    by (rule imageI)
  then have "?entry p \<in> set ?params" by (simp only: set_map)
  then obtain a b where ab: "strings_Join ?params '','' = a @ ?entry p @ b"
    using strings_Join_member by blast
  obtain x y where "variablesString variables = x @ strings_Join ?params '','' @ y"
    using variablesString_split by blast
  with ab have "variablesString variables = (x @ a) @ ?entry p @ (b @ y)" by simp
  then show ?thesis unfolding strings_Contains_iff by blast
qed

lemma strings_Split_no_sep:
  "sep \<notin> set s \<Longrightarrow> strings_Split s sep = [s]"
  by (induction s) auto

lemma strings_Split_append:
  "sep \<notin> set s \<Longrightarrow> strings_Split (s @ sep # t) sep = s # strings_Split t sep"
  by (induction s) (auto split: list.splits)

lemma strings_Split_Join:
  "xs \<noteq> [] \<Longrightarrow> list_all (\<lambda>v. sep \<notin> set v) xs \<Longrightarrow> strings_Split (strings_Join xs [sep]) sep = xs"
proof (induction xs "[sep]" rule: strings_Join.induct)
  case 1
  then show ?case by simp
next
  case (2 e)
  then show ?case by (simp add: strings_Split_no_sep)
next
  case (3 e v va)
  then show ?case by (simp add: strings_Split_append)
qed

lemma length_strings_Split_Join:
  "xs \<noteq> [] \<Longrightarrow> list_all (\<lambda>v. sep \<notin> set v) xs \<Longrightarrow> length (strings_Split (strings_Join xs [sep]) sep) = length xs"
  by (simp add: strings_Split_Join)

lemma buildGraphQLURL_contains_variables:
  assumes "buildGraphQLURL url_Parse baseURL queryID variables = Inr requestURL"
  shows "strings_Contains requestURL (''&variables='' @ variablesString variables)"
proof -
  from assms obtain u where "url_Parse baseURL = Inr u"
    by (auto simp: buildGraphQLURL_def split: sum.splits)
  with assms have "\<exists>enc. requestURL =
      (url_Head u @ ''?'' @ enc) @ (''&variables='' @ variablesString variables) @ url_Tail u"
    by (auto simp: buildGraphQLURL_def Let_def url_String_def)
  then show ?thesis
    using strings_Contains_mid by blast
qed

lemma searchVariables_network:
  assumes "args_NetworkFilters args \<noteq> []"
  shows "\<lparr>qp_Key = ''network'', qp_Value = args_NetworkFilters args\<rparr>
           \<in> set (sq_QueryParameters (sv_Query (searchVariables args)))"
  using assms by (simp add: searchVariables_def Let_def)

subsection \<open>The scenario of the specification\<close>

lemma url_QueryEscape_data_scientist: "url_QueryEscape ''data scientist'' = ''data+scientist''"
  by (simp add: url_QueryEscape_def escapeByte_def shouldEscape_def)

lemma variablesString_scenario:
  "variablesString (searchVariables scenarioArgs) =
     ''(start:0,count:0,origin:FACETED_SEARCH,query:(keywords:data+scientist,flagshipSearchIntent:SEARCH_SRP,queryParameters:List((key:network,value:List(F,O)),(key:resultType,value:List(PEOPLE))),includeFiltersInResponse:false))''"
  by (simp add: scenarioArgs_def variablesString_def searchVariables_def Let_def appendQueryParam_def
      stringSliceToString_def fmt_d_def fmt_t_def decimal.simps url_QueryEscape_data_scientist)

text \<open>
  C3, as stated, fails. The encoder escapes the keywords with \<^verbatim>\<open>url.QueryEscape\<close>, which
  writes a space as \<^verbatim>\<open>+\<close> and not as \<^verbatim>\<open>%20\<close>, and it writes a filter as a pair
  \<^verbatim>\<open>(key:network,value:List(F,O))\<close>: the fragment of the scenario contains neither
  \<^verbatim>\<open>keywords:data%20scientist\<close> nor \<^verbatim>\<open>network:List(F,O)\<close>.
\<close>

theorem scenario_fragment_counterexample:
  "\<not> strings_Contains (variablesString (searchVariables scenarioArgs)) ''keywords:data%20scientist''
   \<and> \<not> strings_Contains (variablesString (searchVariables scenarioArgs)) ''network:List(F,O)''"
  unfolding variablesString_scenario by simp

text \<open>
  C3, amended: encoding the scenario's arguments produces a variables fragment that
  contains \<^verbatim>\<open>keywords:data+scientist\<close>, \<^verbatim>\<open>(key:network,value:List(F,O))\<close> and \<^verbatim>\<open>start:0\<close>.
\<close>

theorem scenario_fragment:
  "strings_Contains (variablesString (searchVariables scenarioArgs)) ''keywords:data+scientist''
   \<and> strings_Contains (variablesString (searchVariables scenarioArgs)) ''(key:network,value:List(F,O))''
   \<and> strings_Contains (variablesString (searchVariables scenarioArgs)) ''start:0''"
  unfolding variablesString_scenario by simp

text \<open>
  C4: when the variables hold a filter with at least one value, the URL that the encoder
  builds contains \<^verbatim>\<open>List(\<close>, the values joined by commas as they are (no escaping), and
  \<^verbatim>\<open>)\<close>; and when no value contains a comma itself, splitting the joined text at the
  commas gives back the values, as many and in the same order.
\<close>

theorem filter_list_in_input_order:
  assumes built: "buildGraphQLURL url_Parse baseURL queryID variables = Inr requestURL"
    and filter: "p \<in> set (sq_QueryParameters (sv_Query variables))"
    and nonempty: "qp_Value p \<noteq> []"
  shows "strings_Contains requestURL (''List('' @ stringSliceToString (qp_Value p) '','' @ '')'')
         \<and> (list_all (\<lambda>v. CHR '','' \<notin> set v) (qp_Value p) \<longrightarrow>
              strings_Split (stringSliceToString (qp_Value p) '','') (CHR '','') = qp_Value p)"
proof
  let ?list = "''List('' @ strings_Join (qp_Value p) '','' @ '')''"
  have "strings_Contains (variablesString variables)
          (''(key:'' @ qp_Key p @ '',value:List('' @ strings_Join (qp_Value p) '','' @ ''))'')"
    using filter by (rule variablesString_contains_param)
  moreover have "strings_Contains
          (''(key:'' @ qp_Key p @ '',value:List('' @ strings_Join (qp_Value p) '','' @ ''))'') ?list"
  proof -
    have "''(key:'' @ qp_Key p @ '',value:List('' @ strings_Join (qp_Value p) '','' @ ''))''
            = (''(key:'' @ qp_Key p @ '',value:'') @ ?list @ '')''"
      by simp
    then show ?thesis by (simp only: strings_Contains_mid)
  qed
  ultimately have "strings_Contains (variablesString variables) ?list"
    by (rule strings_Contains_trans)
  moreover have "strings_Contains (''&variables='' @ variablesString variables) (variablesString variables)"
    using strings_Contains_mid [of "''&variables=''" "variablesString variables" "[]"] by simp
  ultimately have "strings_Contains (''&variables='' @ variablesString variables) ?list"
    using strings_Contains_trans by blast
  with buildGraphQLURL_contains_variables [OF built]
  show "strings_Contains requestURL (''List('' @ stringSliceToString (qp_Value p) '','' @ '')'')"
    unfolding stringSliceToString_def using strings_Contains_trans by blast
next
  show "list_all (\<lambda>v. CHR '','' \<notin> set v) (qp_Value p) \<longrightarrow>
          strings_Split (stringSliceToString (qp_Value p) '','') (CHR '','') = qp_Value p"
    using nonempty strings_Split_Join [of "qp_Value p" "CHR '',''"]
    by (simp add: stringSliceToString_def)
qed

lemma buildGraphQLURL_scenario:
  "buildGraphQLURL plainParse VoyagerBaseURL DefaultSearchQueryID (searchVariables scenarioArgs) =
     Inr (''https://www.linkedin.com/voyager/api/graphql?includeWebMetadata=true''
          @ ''&queryId=voyagerSearchDashClusters.7cdf88d3366ad02cc5a3862fb9a24085''
          @ ''&variables=(start:0,count:0,origin:FACETED_SEARCH,query:(keywords:data+scientist,''
          @ ''flagshipSearchIntent:SEARCH_SRP,queryParameters:List((key:network,value:List(F,O)),''
          @ ''(key:resultType,value:List(PEOPLE))),includeFiltersInResponse:false))'')"
  by (simp add: buildGraphQLURL_def plainParse_def Let_def url_String_def Values_Encode_def
      url_QueryEscape_def escapeByte_def shouldEscape_def VoyagerBaseURL_def DefaultSearchQueryID_def
      variablesString_scenario)

theorem filter_list_in_input_order_witness:
  "\<exists>requestURL.
     buildGraphQLURL plainParse VoyagerBaseURL DefaultSearchQueryID (searchVariables scenarioArgs)
       = Inr requestURL
     \<and> strings_Contains requestURL ''List(F,O)''
     \<and> strings_Split ''F,O'' (CHR '','') = [''F'', ''O'']"
proof -
  let ?p = "\<lparr>qp_Key = ''network'', qp_Value = [''F'', ''O'']\<rparr>"
  have member: "?p \<in> set (sq_QueryParameters (sv_Query (searchVariables scenarioArgs)))"
    by (simp add: searchVariables_def scenarioArgs_def Let_def)
  have vals: "qp_Value ?p \<noteq> []" by simp
  from filter_list_in_input_order [OF buildGraphQLURL_scenario member vals]
  show ?thesis
    by (simp add: buildGraphQLURL_scenario stringSliceToString_def)
qed

section \<open>Properties of the graph resolver\<close>

subsection \<open>Trimming\<close>



lemma isSpace1_space [simp]: "isSpace1 (CHR '' '')"
  by (simp add: isSpace1_def)

lemma isSpace2_space [simp]: "\<not> isSpace2 c (CHR '' '')" "\<not> isSpace2 (CHR '' '') c"
  by (simp_all add: isSpace2_def)

lemma isSpace3_space [simp]:
  "\<not> isSpace3 c1 c2 (CHR '' '')" "\<not> isSpace3 c1 (CHR '' '') c3" "\<not> isSpace3 (CHR '' '') c2 c3"
  by (simp_all add: isSpace3_def)










subsection \<open>Collections and the anchor\<close>

lemma foldl_append_filter:
  "foldl (\<lambda>acc x. if P x then acc @ [f x] else acc) acc xs = acc @ map f (filter P xs)"
  by (induction xs arbitrary: acc) simp_all

lemma parseExperienceData_map_filter:
  "parseExperienceData T apiResponse profileURN =
     map experienceOf (filter (\<lambda>item. ie_Type item = EntityTypePosition T) (pr_Included apiResponse))"
  unfolding parseExperienceData_def by (simp only: foldl_append_filter append_Nil)

lemma parseEducationData_map_filter:
  "parseEducationData T apiResponse profileURN =
     map educationOf (filter (\<lambda>item. ie_Type item = EntityTypeEducation T) (pr_Included apiResponse))"
  unfolding parseEducationData_def by (simp only: foldl_append_filter append_Nil)

lemma parseSkillsData_map_filter:
  "parseSkillsData T apiResponse profileURN =
     map skillOf (filter (\<lambda>item. strings_Contains (ie_Type item) (EntityTypeEndorsedSkill T))
                         (pr_Included apiResponse))"
  unfolding parseSkillsData_def by (simp only: foldl_append_filter append_Nil)

lemma parseSimpleProfileFields_id: "parseSimpleProfileFields profile apiResponse profileEntity = profile"
  by (simp add: parseSimpleProfileFields_def extractFieldFromRawJSON_def)

lemma findProfileEntity_None:
  "findProfileEntity T apiResponse publicIdentifier = None \<longleftrightarrow>
     \<not> (\<exists>item \<in> set (pr_Included apiResponse).
          ie_Type item = EntityTypeProfile T \<and> ie_PublicIdentifier item = publicIdentifier)"
  by (auto simp: findProfileEntity_def find_None_iff)

lemma findProfileEntity_Some:
  assumes "findProfileEntity T apiResponse publicIdentifier = Some profileEntity"
  shows "profileEntity \<in> set (pr_Included apiResponse)"
    and "ie_Type profileEntity = EntityTypeProfile T"
    and "ie_PublicIdentifier profileEntity = publicIdentifier"
  using assms by (auto simp: findProfileEntity_def find_Some_iff)

lemma parseProfileFromAPIResponse_found:
  assumes "findProfileEntity T apiResponse publicIdentifier = Some profileEntity"
  shows "\<exists>profile. parseProfileFromAPIResponse T apiResponse publicIdentifier = Inr profile
           \<and> PublicIdentifier profile = ie_PublicIdentifier profileEntity
           \<and> FirstName profile = ie_FirstName profileEntity
           \<and> LastName profile = ie_LastName profileEntity
           \<and> FullName profile = strings_TrimSpace (ie_FirstName profileEntity @ '' '' @ ie_LastName profileEntity)
           \<and> Experience profile = parseExperienceData T apiResponse (ie_EntityURN profileEntity)
           \<and> Education profile = parseEducationData T apiResponse (ie_EntityURN profileEntity)
           \<and> Skills profile = parseSkillsData T apiResponse (ie_EntityURN profileEntity)"
  using assms
  by (simp add: parseProfileFromAPIResponse_def parseSimpleProfileFields_id Let_def LinkedInProfile_zero_def)

lemma parseProfileFromAPIResponse_Inr:
  assumes "parseProfileFromAPIResponse T apiResponse publicIdentifier = Inr profile"
  shows "\<exists>profileEntity. findProfileEntity T apiResponse publicIdentifier = Some profileEntity"
  using assms by (auto simp: parseProfileFromAPIResponse_def split: option.splits)


text \<open>
  C1: when the included array holds an anchor for the requested identifier and N position
  entities, the resolver returns a profile whose experience collection has length N and
  lists the position entities, converted one by one, in the order in which they stand in
  the included array.
\<close>

theorem experience_length_and_order:
  assumes anchor: "\<exists>item \<in> set (pr_Included apiResponse).
                     ie_Type item = EntityTypeProfile T \<and> ie_PublicIdentifier item = publicIdentifier"
    and count: "length (filter (\<lambda>item. ie_Type item = EntityTypePosition T) (pr_Included apiResponse)) = N"
  shows "\<exists>profile. parseProfileFromAPIResponse T apiResponse publicIdentifier = Inr profile
           \<and> length (Experience profile) = N
           \<and> Experience profile =
               map experienceOf (filter (\<lambda>item. ie_Type item = EntityTypePosition T) (pr_Included apiResponse))"
proof -
  from anchor obtain profileEntity
    where "findProfileEntity T apiResponse publicIdentifier = Some profileEntity"
    using findProfileEntity_None [of T apiResponse publicIdentifier] by fastforce
  then obtain profile
    where result: "parseProfileFromAPIResponse T apiResponse publicIdentifier = Inr profile"
      and experience: "Experience profile = parseExperienceData T apiResponse (ie_EntityURN profileEntity)"
    using parseProfileFromAPIResponse_found by blast
  from experience have listed: "Experience profile =
      map experienceOf (filter (\<lambda>item. ie_Type item = EntityTypePosition T) (pr_Included apiResponse))"
    by (simp only: parseExperienceData_map_filter)
  then have "length (Experience profile) = N"
    using count by simp
  with result listed show ?thesis by blast
qed

lemma scenarioPayload_anchor:
  "findProfileEntity literalEntityTypes scenarioPayload ''jane-doe'' = Some janeDoe"
  by (simp add: findProfileEntity_def scenarioPayload_def literalEntityTypes_def janeDoe_def
      positionAt_def GenericIncludedElement_zero_def)

lemma scenarioPayload_positions:
  "filter (\<lambda>item. ie_Type item = EntityTypePosition literalEntityTypes) (pr_Included scenarioPayload) =
     [positionAt ''urn:li:fsd_profilePosition:1'' ''Acme'', positionAt ''urn:li:fsd_profilePosition:2'' ''Initech'']"
  by (simp add: scenarioPayload_def literalEntityTypes_def janeDoe_def
      positionAt_def GenericIncludedElement_zero_def)

theorem experience_length_and_order_witness:
  "\<exists>profile. parseProfileFromAPIResponse literalEntityTypes scenarioPayload ''jane-doe'' = Inr profile
      \<and> length (Experience profile) = 2
      \<and> map ex_EntityURN (Experience profile) =
           [''urn:li:fsd_profilePosition:1'', ''urn:li:fsd_profilePosition:2'']"
proof -
  have anchor: "\<exists>item \<in> set (pr_Included scenarioPayload).
      ie_Type item = EntityTypeProfile literalEntityTypes \<and> ie_PublicIdentifier item = ''jane-doe''"
    using findProfileEntity_Some [OF scenarioPayload_anchor] by blast
  have count: "length (filter (\<lambda>item. ie_Type item = EntityTypePosition literalEntityTypes)
                  (pr_Included scenarioPayload)) = 2"
    by (simp add: scenarioPayload_positions)
  from experience_length_and_order [OF anchor count] obtain profile
    where "parseProfileFromAPIResponse literalEntityTypes scenarioPayload ''jane-doe'' = Inr profile"
      and "length (Experience profile) = 2"
      and "Experience profile = map experienceOf
             (filter (\<lambda>item. ie_Type item = EntityTypePosition literalEntityTypes) (pr_Included scenarioPayload))"
    by blast
  then show ?thesis
    by (simp add: scenarioPayload_positions experienceOf_def positionAt_def GenericIncludedElement_zero_def)
qed

lemma Errorf_not_typed: "\<not> typedError (Errorf msg)"
  by (simp add: typedError_def sentinelErrors_def)

text \<open>
  C2, as stated, fails in one word: the error is not typed. For a payload without an
  anchor for \<^verbatim>\<open>john-doe\<close> the resolver returns the error that \<^verbatim>\<open>fmt.Errorf\<close> makes from the
  message alone; it is none of the sentinels of \<^verbatim>\<open>errors.go\<close> and wraps none.
\<close>

theorem not_found_untyped_counterexample:
  "parseProfileFromAPIResponse literalEntityTypes scenarioPayload ''john-doe'' =
     Inl (Errorf ''profile not found in API response for publicIdentifier: john-doe'')
   \<and> \<not> typedError (Errorf ''profile not found in API response for publicIdentifier: john-doe'')"
proof
  have "findProfileEntity literalEntityTypes scenarioPayload ''john-doe'' = None"
    by (simp add: findProfileEntity_def scenarioPayload_def literalEntityTypes_def janeDoe_def
        positionAt_def GenericIncludedElement_zero_def)
  then show "parseProfileFromAPIResponse literalEntityTypes scenarioPayload ''john-doe'' =
      Inl (Errorf ''profile not found in API response for publicIdentifier: john-doe'')"
    by (simp add: parseProfileFromAPIResponse_def)
next
  show "\<not> typedError (Errorf ''profile not found in API response for publicIdentifier: john-doe'')"
    by (rule Errorf_not_typed)
qed

text \<open>
  C2, amended: when no entity of the included array has the profile type and the
  requested public identifier, the resolver returns an error and no profile, and so does
  the conversion the client calls. The error carries only the message
  \<^emph>\<open>profile not found in API response for publicIdentifier:\<close> followed by the identifier;
  it is not typed, so a caller can tell it by its text alone.
\<close>

theorem missing_anchor_not_found:
  assumes "\<not> (\<exists>item \<in> set (pr_Included apiResponse).
                ie_Type item = EntityTypeProfile T \<and> ie_PublicIdentifier item = publicIdentifier)"
  shows "parseProfileFromAPIResponse T apiResponse publicIdentifier =
           Inl (Errorf (''profile not found in API response for publicIdentifier: '' @ publicIdentifier))
         \<and> convertAPIResponseToLinkedInProfile T apiResponse publicIdentifier =
           Inl (Errorf (''profile not found in API response for publicIdentifier: '' @ publicIdentifier))
         \<and> \<not> typedError
               (Errorf (''profile not found in API response for publicIdentifier: '' @ publicIdentifier))"
proof -
  from assms have "findProfileEntity T apiResponse publicIdentifier = None"
    using findProfileEntity_None [of T apiResponse publicIdentifier] by blast
  then have "parseProfileFromAPIResponse T apiResponse publicIdentifier =
      Inl (Errorf (''profile not found in API response for publicIdentifier: '' @ publicIdentifier))"
    by (simp add: parseProfileFromAPIResponse_def)
  then show ?thesis
    by (simp add: convertAPIResponseToLinkedInProfile_def Errorf_not_typed)
qed

theorem missing_anchor_not_found_witness:
  "parseProfileFromAPIResponse literalEntityTypes janeOnlyPayload ''jane-doe'' =
     Inl (Errorf ''profile not found in API response for publicIdentifier: jane-doe'')
   \<and> convertAPIResponseToLinkedInProfile literalEntityTypes janeOnlyPayload ''jane-doe'' =
     Inl (Errorf ''profile not found in API response for publicIdentifier: jane-doe'')
   \<and> \<not> typedError (Errorf ''profile not found in API response for publicIdentifier: jane-doe'')"
proof -
  have "\<not> (\<exists>item \<in> set (pr_Included janeOnlyPayload).
            ie_Type item = EntityTypeProfile literalEntityTypes \<and> ie_PublicIdentifier item = ''jane-doe'')"
    by (simp add: janeOnlyPayload_def janeOnly_def GenericIncludedElement_zero_def)
  from missing_anchor_not_found [OF this] show ?thesis by simp
qed

subsection \<open>The full name\<close>







subsection \<open>The primary identifier\<close>

lemma validateProfileData_Inr:
  assumes "validateProfileData (Some profile) = Inr validated"
  shows "PublicIdentifier validated = PublicIdentifier profile" and "PublicIdentifier profile \<noteq> []"
  using assms by (auto simp: validateProfileData_def split: if_splits)

lemma convert_Inr:
  assumes "convertAPIResponseToLinkedInProfile T apiResponse publicIdentifier = Inr profile"
  shows "PublicIdentifier profile = publicIdentifier \<and> PublicIdentifier profile \<noteq> []"
proof -
  from assms obtain assembled
    where parsed: "parseProfileFromAPIResponse T apiResponse publicIdentifier = Inr assembled"
      and valid: "validateProfileData (Some assembled) = Inr profile"
    by (auto simp: convertAPIResponseToLinkedInProfile_def split: sum.splits)
  from parsed obtain profileEntity
    where anchor: "findProfileEntity T apiResponse publicIdentifier = Some profileEntity"
    using parseProfileFromAPIResponse_Inr by blast
  from parseProfileFromAPIResponse_found [OF anchor] parsed
  have "PublicIdentifier assembled = ie_PublicIdentifier profileEntity" by auto
  with findProfileEntity_Some(3) [OF anchor] have "PublicIdentifier assembled = publicIdentifier"
    by simp
  with validateProfileData_Inr [OF valid] show ?thesis by simp
qed

lemma ParseFromJSON_Inr:
  assumes "ParseFromJSON T json_Unmarshal jsonData = Inr profile"
  shows "PublicIdentifier profile \<noteq> []"
proof -
  from assms obtain assembled
    where "validateProfileData (Some assembled) = Inr profile"
    by (auto simp: ParseFromJSON_def Let_def split: sum.splits if_splits)
  then show ?thesis using validateProfileData_Inr by simp
qed

text \<open>
  C9: a profile returned by \<^verbatim>\<open>convertAPIResponseToLinkedInProfile\<close> carries the requested
  public identifier, which is not empty, and a profile returned by \<^verbatim>\<open>ParseFromJSON\<close>
  carries a non-empty public identifier; when the assembled profile has an empty
  identifier, the conversion fails with the error \<^emph>\<open>publicIdentifier is required\<close>.
\<close>

theorem resolved_identifier_nonempty:
  "(convertAPIResponseToLinkedInProfile T apiResponse publicIdentifier = Inr profile \<longrightarrow>
      PublicIdentifier profile = publicIdentifier \<and> PublicIdentifier profile \<noteq> [])
   \<and> (ParseFromJSON T json_Unmarshal jsonData = Inr parsed \<longrightarrow> PublicIdentifier parsed \<noteq> [])
   \<and> (parseProfileFromAPIResponse T apiResponse publicIdentifier = Inr assembled
        \<and> PublicIdentifier assembled = [] \<longrightarrow>
      convertAPIResponseToLinkedInProfile T apiResponse publicIdentifier =
        Inl (Errorf ''publicIdentifier is required''))"
proof (intro conjI impI)
  assume "convertAPIResponseToLinkedInProfile T apiResponse publicIdentifier = Inr profile"
  then show "PublicIdentifier profile = publicIdentifier" and "PublicIdentifier profile \<noteq> []"
    using convert_Inr by blast+
next
  assume "ParseFromJSON T json_Unmarshal jsonData = Inr parsed"
  then show "PublicIdentifier parsed \<noteq> []" by (rule ParseFromJSON_Inr)
next
  assume "parseProfileFromAPIResponse T apiResponse publicIdentifier = Inr assembled
            \<and> PublicIdentifier assembled = []"
  then show "convertAPIResponseToLinkedInProfile T apiResponse publicIdentifier =
      Inl (Errorf ''publicIdentifier is required'')"
    by (simp add: convertAPIResponseToLinkedInProfile_def validateProfileData_def)
qed

lemma anonymousPayload_anchor:
  "findProfileEntity literalEntityTypes anonymousPayload [] =
     Some (GenericIncludedElement_zero
             \<lparr>ie_Type := ''com.linkedin.voyager.dash.identity.profile.Profile'',
              ie_EntityURN := ''urn:li:fsd_profile:anonymous''\<rparr>)"
  by (simp add: findProfileEntity_def anonymousPayload_def literalEntityTypes_def
      GenericIncludedElement_zero_def)

lemma convert_found:
  assumes anchor: "findProfileEntity T apiResponse publicIdentifier = Some profileEntity"
    and named: "publicIdentifier \<noteq> []"
  shows "\<exists>profile. convertAPIResponseToLinkedInProfile T apiResponse publicIdentifier = Inr profile"
proof -
  from parseProfileFromAPIResponse_found [OF anchor] obtain assembled
    where parsed: "parseProfileFromAPIResponse T apiResponse publicIdentifier = Inr assembled"
      and "PublicIdentifier assembled = ie_PublicIdentifier profileEntity"
    by blast
  with findProfileEntity_Some(3) [OF anchor] named have "PublicIdentifier assembled \<noteq> []"
    by simp
  with parsed show ?thesis
    by (simp add: convertAPIResponseToLinkedInProfile_def validateProfileData_def)
qed

lemma extractPublicIdentifier_scenario:
  "extractPublicIdentifierFromResponse literalEntityTypes scenarioPayload = ''jane-doe''"
  by (simp add: extractPublicIdentifierFromResponse_def scenarioPayload_def literalEntityTypes_def
      janeDoe_def positionAt_def GenericIncludedElement_zero_def)

lemma ParseFromJSON_scenario:
  "\<exists>profile. ParseFromJSON literalEntityTypes (\<lambda>jsonData. Inr scenarioPayload) [] = Inr profile"
proof -
  from parseProfileFromAPIResponse_found [OF scenarioPayload_anchor] obtain assembled
    where parsed: "parseProfileFromAPIResponse literalEntityTypes scenarioPayload ''jane-doe'' = Inr assembled"
      and "PublicIdentifier assembled = ie_PublicIdentifier janeDoe"
    by blast
  then have "PublicIdentifier assembled \<noteq> []"
    by (simp add: janeDoe_def GenericIncludedElement_zero_def)
  with parsed show ?thesis
    by (simp add: ParseFromJSON_def extractPublicIdentifier_scenario validateProfileData_def)
qed

theorem resolved_identifier_nonempty_witness:
  "(\<exists>profile. convertAPIResponseToLinkedInProfile literalEntityTypes scenarioPayload ''jane-doe'' = Inr profile
       \<and> PublicIdentifier profile = ''jane-doe'')
   \<and> (\<exists>parsed. ParseFromJSON literalEntityTypes (\<lambda>jsonData. Inr scenarioPayload) [] = Inr parsed
       \<and> PublicIdentifier parsed \<noteq> [])
   \<and> convertAPIResponseToLinkedInProfile literalEntityTypes anonymousPayload [] =
       Inl (Errorf ''publicIdentifier is required'')"
proof (intro conjI)
  have "''jane-doe'' \<noteq> []" by simp
  from convert_found [OF scenarioPayload_anchor this] obtain profile
    where converted: "convertAPIResponseToLinkedInProfile literalEntityTypes scenarioPayload ''jane-doe'' = Inr profile"
    by blast
  with resolved_identifier_nonempty
         [of literalEntityTypes scenarioPayload "''jane-doe''" profile]
  have "PublicIdentifier profile = ''jane-doe''" by blast
  with converted
  show "\<exists>profile. convertAPIResponseToLinkedInProfile literalEntityTypes scenarioPayload ''jane-doe'' = Inr profile
          \<and> PublicIdentifier profile = ''jane-doe''"
    by blast
next
  from ParseFromJSON_scenario obtain parsed
    where decoded: "ParseFromJSON literalEntityTypes (\<lambda>jsonData. Inr scenarioPayload) [] = Inr parsed"
    by blast
  with resolved_identifier_nonempty
         [of literalEntityTypes _ _ _ "\<lambda>jsonData. Inr scenarioPayload" "[]" parsed]
  have "PublicIdentifier parsed \<noteq> []" by blast
  with decoded
  show "\<exists>parsed. ParseFromJSON literalEntityTypes (\<lambda>jsonData. Inr scenarioPayload) [] = Inr parsed
          \<and> PublicIdentifier parsed \<noteq> []"
    by blast
next
  from parseProfileFromAPIResponse_found [OF anonymousPayload_anchor] obtain assembled
    where "parseProfileFromAPIResponse literalEntityTypes anonymousPayload [] = Inr assembled"
      and "PublicIdentifier assembled = []"
    by (auto simp: GenericIncludedElement_zero_def)
  with resolved_identifier_nonempty
         [of literalEntityTypes anonymousPayload "[]" _ _ _ _ assembled]
  show "convertAPIResponseToLinkedInProfile literalEntityTypes anonymousPayload [] =
          Inl (Errorf ''publicIdentifier is required'')"
    by blast
qed

subsection \<open>Ownership of the nested entities\<close>

lemma parseProfileFromAPIResponse_collections:
  assumes "parseProfileFromAPIResponse T apiResponse publicIdentifier = Inr profile"
  shows "Experience profile =
           map experienceOf (filter (\<lambda>item. ie_Type item = EntityTypePosition T) (pr_Included apiResponse))"
    and "Education profile =
           map educationOf (filter (\<lambda>item. ie_Type item = EntityTypeEducation T) (pr_Included apiResponse))"
    and "Skills profile =
           map skillOf (filter (\<lambda>item. strings_Contains (ie_Type item) (EntityTypeEndorsedSkill T))
                               (pr_Included apiResponse))"
proof -
  from assms obtain profileEntity
    where "findProfileEntity T apiResponse publicIdentifier = Some profileEntity"
    using parseProfileFromAPIResponse_Inr by blast
  from parseProfileFromAPIResponse_found [OF this] obtain assembled
    where result: "parseProfileFromAPIResponse T apiResponse publicIdentifier = Inr assembled"
      and experience: "Experience assembled = parseExperienceData T apiResponse (ie_EntityURN profileEntity)"
      and education: "Education assembled = parseEducationData T apiResponse (ie_EntityURN profileEntity)"
      and skills: "Skills assembled = parseSkillsData T apiResponse (ie_EntityURN profileEntity)"
    by blast
  from result assms have same: "assembled = profile" by simp
  from experience show "Experience profile =
      map experienceOf (filter (\<lambda>item. ie_Type item = EntityTypePosition T) (pr_Included apiResponse))"
    unfolding same by (simp only: parseExperienceData_map_filter)
  from education show "Education profile =
      map educationOf (filter (\<lambda>item. ie_Type item = EntityTypeEducation T) (pr_Included apiResponse))"
    unfolding same by (simp only: parseEducationData_map_filter)
  from skills show "Skills profile =
      map skillOf (filter (\<lambda>item. strings_Contains (ie_Type item) (EntityTypeEndorsedSkill T))
                          (pr_Included apiResponse))"
    unfolding same by (simp only: parseSkillsData_map_filter)
qed

text \<open>
  C10: the experience, education and skill collections of a resolved profile hold every
  entity of the included array with the matching type tag, converted, in the order of the
  array, whatever profile the entity belongs to: the URN that \<^verbatim>\<open>parseExperienceData\<close>,
  \<^verbatim>\<open>parseEducationData\<close> and \<^verbatim>\<open>parseSkillsData\<close> receive does not change their result.
\<close>

theorem collections_ignore_ownership:
  assumes "parseProfileFromAPIResponse T apiResponse publicIdentifier = Inr profile"
  shows "Experience profile =
           map experienceOf (filter (\<lambda>item. ie_Type item = EntityTypePosition T) (pr_Included apiResponse))
         \<and> Education profile =
           map educationOf (filter (\<lambda>item. ie_Type item = EntityTypeEducation T) (pr_Included apiResponse))
         \<and> Skills profile =
           map skillOf (filter (\<lambda>item. strings_Contains (ie_Type item) (EntityTypeEndorsedSkill T))
                               (pr_Included apiResponse))
         \<and> parseExperienceData T apiResponse profileURN = parseExperienceData T apiResponse otherURN
         \<and> parseEducationData T apiResponse profileURN = parseEducationData T apiResponse otherURN
         \<and> parseSkillsData T apiResponse profileURN = parseSkillsData T apiResponse otherURN"
proof -
  note collected = parseProfileFromAPIResponse_collections [OF assms]
  have experience: "parseExperienceData T apiResponse profileURN = parseExperienceData T apiResponse otherURN"
    by (simp only: parseExperienceData_map_filter)
  have education: "parseEducationData T apiResponse profileURN = parseEducationData T apiResponse otherURN"
    by (simp only: parseEducationData_map_filter)
  have skills: "parseSkillsData T apiResponse profileURN = parseSkillsData T apiResponse otherURN"
    by (simp only: parseSkillsData_map_filter)
  from collected(1) collected(2) collected(3) experience education skills
  show ?thesis by (intro conjI)
qed


lemma twoProfilesPayload_anchor:
  "findProfileEntity literalEntityTypes twoProfilesPayload ''jane-doe'' = Some janeDoe"
  by (simp add: findProfileEntity_def twoProfilesPayload_def literalEntityTypes_def janeDoe_def
      GenericIncludedElement_zero_def)

lemma twoProfilesPayload_collections:
  "map ex_EntityURN (map experienceOf
     (filter (\<lambda>item. ie_Type item = EntityTypePosition literalEntityTypes) (pr_Included twoProfilesPayload)))
     = [''urn:li:fsd_profilePosition:(john,1)'']"
  "map ed_EntityURN (map educationOf
     (filter (\<lambda>item. ie_Type item = EntityTypeEducation literalEntityTypes) (pr_Included twoProfilesPayload)))
     = [''urn:li:fsd_profileEducation:(john,2)'']"
  "map sk_EntityURN (map skillOf
     (filter (\<lambda>item. strings_Contains (ie_Type item) (EntityTypeEndorsedSkill literalEntityTypes))
             (pr_Included twoProfilesPayload)))
     = [''urn:li:fsd_skill:(john,3)'']"
  by (simp_all add: twoProfilesPayload_def literalEntityTypes_def janeDoe_def johnRoe_def
      positionAt_def experienceOf_def educationOf_def skillOf_def GenericIncludedElement_zero_def)

theorem collections_ignore_ownership_witness:
  "\<exists>profile. parseProfileFromAPIResponse literalEntityTypes twoProfilesPayload ''jane-doe'' = Inr profile
     \<and> map ex_EntityURN (Experience profile) = [''urn:li:fsd_profilePosition:(john,1)'']
     \<and> map ed_EntityURN (Education profile) = [''urn:li:fsd_profileEducation:(john,2)'']
     \<and> map sk_EntityURN (Skills profile) = [''urn:li:fsd_skill:(john,3)'']"
proof -
  from parseProfileFromAPIResponse_found [OF twoProfilesPayload_anchor] obtain profile
    where parsed: "parseProfileFromAPIResponse literalEntityTypes twoProfilesPayload ''jane-doe'' = Inr profile"
    by blast
  note all = collections_ignore_ownership [OF parsed, of "[]" "[]"]
  from all have experience: "Experience profile = map experienceOf
         (filter (\<lambda>item. ie_Type item = EntityTypePosition literalEntityTypes) (pr_Included twoProfilesPayload))"
    by (rule conjunct1)
  from all have education: "Education profile = map educationOf
         (filter (\<lambda>item. ie_Type item = EntityTypeEducation literalEntityTypes) (pr_Included twoProfilesPayload))"
    by (rule conjunct2 [THEN conjunct1])
  from all have skills: "Skills profile = map skillOf
         (filter (\<lambda>item. strings_Contains (ie_Type item) (EntityTypeEndorsedSkill literalEntityTypes))
                 (pr_Included twoProfilesPayload))"
    by (rule conjunct2 [THEN conjunct2, THEN conjunct1])
  have "map ex_EntityURN (Experience profile) = [''urn:li:fsd_profilePosition:(john,1)'']"
    unfolding experience by (rule twoProfilesPayload_collections(1))
  moreover have "map ed_EntityURN (Education profile) = [''urn:li:fsd_profileEducation:(john,2)'']"
    unfolding education by (rule twoProfilesPayload_collections(2))
  moreover have "map sk_EntityURN (Skills profile) = [''urn:li:fsd_skill:(john,3)'']"
    unfolding skills by (rule twoProfilesPayload_collections(3))
  ultimately show ?thesis using parsed by (intro exI [of _ profile] conjI)
qed

section \<open>Properties of flexible text\<close>

text \<open>
  C5: decoding a flexible text maps the bare JSON string \<^verbatim>\<open>"Engineer"\<close> to \<^verbatim>\<open>Engineer\<close>, the
  wrapped object \<^verbatim>\<open>{"text":"Engineer"}\<close> to \<^verbatim>\<open>Engineer\<close>, and the JSON null to the empty
  string; none of the three is a decode error.
\<close>

theorem flexible_text_three_forms:
  "FlexibleText_UnmarshalJSON \<lparr>data_bytes = quoted ''Engineer'', data_value = JString ''Engineer''\<rparr>
     = Inr ''Engineer''
   \<and> FlexibleText_UnmarshalJSON
       \<lparr>data_bytes = ''{'' @ quoted ''text'' @ '':'' @ quoted ''Engineer'' @ ''}'',
        data_value = JObject [(''text'', JString ''Engineer'')]\<rparr>
     = Inr ''Engineer''
   \<and> FlexibleText_UnmarshalJSON \<lparr>data_bytes = ''null'', data_value = JNull\<rparr> = Inr []"
proof (intro conjI)
  show "FlexibleText_UnmarshalJSON \<lparr>data_bytes = quoted ''Engineer'', data_value = JString ''Engineer''\<rparr>
     = Inr ''Engineer''"
    by (simp add: FlexibleText_UnmarshalJSON_def unmarshal_textObj_def unmarshal_string_def)
next
  have "unmarshal_textObj (JObject [(''text'', JString ''Engineer'')]) = Some ''Engineer''"
    by (simp add: unmarshal_textObj_def matchesFieldText_def)
  then show "FlexibleText_UnmarshalJSON
       \<lparr>data_bytes = ''{'' @ quoted ''text'' @ '':'' @ quoted ''Engineer'' @ ''}'',
        data_value = JObject [(''text'', JString ''Engineer'')]\<rparr>
     = Inr ''Engineer''"
    by (simp add: FlexibleText_UnmarshalJSON_def)
next
  show "FlexibleText_UnmarshalJSON \<lparr>data_bytes = ''null'', data_value = JNull\<rparr> = Inr []"
    by (simp add: FlexibleText_UnmarshalJSON_def unmarshal_textObj_def unmarshal_string_def)
qed






section \<open>Properties of SearchProfiles\<close>

lemma map_of_Values_Set:
  "map_of (Values_Set h key val) k = (if k = key then Some [val] else map_of h k)"
  by (induction h key val rule: Values_Set.induct) auto

lemma searchHeaders_page_instance:
  "map_of (searchHeaders args) ''X-Li-Page-Instance'' =
     Some [if args_XLiPageInstance args \<noteq> [] then args_XLiPageInstance args else defaultXLiPageInstance]"
  by (simp add: searchHeaders_def Let_def Header_Set_def map_of_Values_Set)

lemma searchHeaders_track:
  "map_of (searchHeaders args) ''X-Li-Track'' =
     Some [if args_XLiTrack args \<noteq> [] then args_XLiTrack args else defaultXLiTrack]"
  by (simp add: searchHeaders_def Let_def Header_Set_def map_of_Values_Set)

lemma variablesString_count:
  "strings_Contains (variablesString (searchVariables args)) ('',count:'' @ fmt_d (args_Count args) @ '','')"
proof -
  have "variablesString (searchVariables args) =
      (''(start:'' @ fmt_d (args_Start args))
      @ ('',count:'' @ fmt_d (args_Count args) @ '','')
      @ (''origin:FACETED_SEARCH,query:(keywords:'' @ url_QueryEscape (args_Keywords args)
         @ '',flagshipSearchIntent:SEARCH_SRP,queryParameters:List(''
         @ stringSliceToString
             (foldl appendQueryParam [] (sq_QueryParameters (sv_Query (searchVariables args)))) '',''
         @ ''),includeFiltersInResponse:false))'')"
    by (simp add: variablesString_def Let_def searchVariables_def fmt_t_def)
  then show ?thesis
    by (simp only: strings_Contains_mid)
qed

lemma fmt_d_0: "fmt_d 0 = ''0''"
  by (simp add: fmt_d_def decimal.simps)

lemma searchVariables_no_network:
  assumes "args_NetworkFilters args = []"
  shows "sq_QueryParameters (sv_Query (searchVariables args)) =
           [\<lparr>qp_Key = ''resultType'', qp_Value = [''PEOPLE'']\<rparr>]"
  using assms by (simp add: searchVariables_def Let_def)

lemma buildGraphQLURL_fails_iff:
  "(\<exists>err. buildGraphQLURL url_Parse baseURL queryID variables = Inl err)
     \<longleftrightarrow> (\<exists>err. url_Parse baseURL = Inl err)"
  by (cases "url_Parse baseURL") (simp_all add: buildGraphQLURL_def Let_def)

lemma SearchProfiles_keywords:
  assumes "LiAtCookie (cfg_Auth config) \<noteq> []" and "CSRFToken (cfg_Auth config) \<noteq> []"
  shows "SearchProfiles url_Parse makeRequest json_Unmarshal config args = Inl ErrKeywordsMissing
           \<longleftrightarrow> args_Keywords args = []"
proof
  assume "args_Keywords args = []"
  with assms show "SearchProfiles url_Parse makeRequest json_Unmarshal config args = Inl ErrKeywordsMissing"
    by (simp add: SearchProfiles_def)
next
  assume failed: "SearchProfiles url_Parse makeRequest json_Unmarshal config args = Inl ErrKeywordsMissing"
  show "args_Keywords args = []"
  proof (rule ccontr)
    assume "args_Keywords args \<noteq> []"
    with assms failed show False
      by (auto simp: SearchProfiles_def Let_def split: sum.splits prod.splits if_splits)
  qed
qed

lemma SearchProfiles_errors_Is:
  assumes "LiAtCookie (cfg_Auth config) \<noteq> []" and "CSRFToken (cfg_Auth config) \<noteq> []"
    and "SearchProfiles url_Parse makeRequest json_Unmarshal config args = Inl err"
  shows "errors_Is err ErrKeywordsMissing \<longleftrightarrow> args_Keywords args = []"
  using assms
  by (auto simp: SearchProfiles_def Let_def split: sum.splits prod.splits if_splits)

text \<open>
  C7, as stated, fails in its last clause. For a search that gives the keywords only, the
  built request still carries the paging count, written \<^verbatim>\<open>count:0\<close>, and the two headers
  that the arguments may override, set to their default values: absent optional arguments
  are not all omitted.
\<close>

theorem optional_arguments_counterexample:
  "strings_Contains (variablesString (searchVariables keywordsOnlyArgs)) '',count:0,''
   \<and> map_of (searchHeaders keywordsOnlyArgs) ''X-Li-Page-Instance''
       = Some [''urn:li:page:d_flagship3_search_srp_people;placeholder'']
   \<and> map_of (searchHeaders keywordsOnlyArgs) ''X-Li-Track'' = Some [defaultXLiTrack]"
proof (intro conjI)
  have "args_Count keywordsOnlyArgs = 0" by (simp add: keywordsOnlyArgs_def)
  with variablesString_count [of keywordsOnlyArgs]
  show "strings_Contains (variablesString (searchVariables keywordsOnlyArgs)) '',count:0,''"
    by (simp add: fmt_d_0)
next
  show "map_of (searchHeaders keywordsOnlyArgs) ''X-Li-Page-Instance''
          = Some [''urn:li:page:d_flagship3_search_srp_people;placeholder'']"
    by (simp add: searchHeaders_page_instance keywordsOnlyArgs_def defaultXLiPageInstance_def)
next
  show "map_of (searchHeaders keywordsOnlyArgs) ''X-Li-Track'' = Some [defaultXLiTrack]"
    by (simp add: searchHeaders_track keywordsOnlyArgs_def)
qed

text \<open>
  C7, amended: with both credentials configured, \<^verbatim>\<open>SearchProfiles\<close> returns
  \<^verbatim>\<open>ErrKeywordsMissing\<close> exactly when the keywords are empty, and no other error it returns
  matches that sentinel. Building the URL fails only when \<^verbatim>\<open>url.Parse\<close> rejects the base URL,
  whatever the arguments are. An empty list of network filters is left out of the query
  parameters; an absent count is written \<^verbatim>\<open>count:0\<close>; absent header overrides are replaced
  by the default values.
\<close>

theorem keywords_required_options_defaulted:
  assumes auth: "LiAtCookie (cfg_Auth config) \<noteq> [] \<and> CSRFToken (cfg_Auth config) \<noteq> []"
  shows "(SearchProfiles url_Parse makeRequest json_Unmarshal config args = Inl ErrKeywordsMissing
            \<longleftrightarrow> args_Keywords args = [])
         \<and> (SearchProfiles url_Parse makeRequest json_Unmarshal config args = Inl err \<longrightarrow>
               (errors_Is err ErrKeywordsMissing \<longleftrightarrow> args_Keywords args = []))
         \<and> ((\<exists>failure. buildGraphQLURL url_Parse VoyagerBaseURL DefaultSearchQueryID (searchVariables args)
                         = Inl failure)
               \<longleftrightarrow> (\<exists>failure. url_Parse VoyagerBaseURL = Inl failure))
         \<and> (args_NetworkFilters args = [] \<longrightarrow>
               sq_QueryParameters (sv_Query (searchVariables args))
                 = [\<lparr>qp_Key = ''resultType'', qp_Value = [''PEOPLE'']\<rparr>])
         \<and> (args_Count args = 0 \<longrightarrow>
               strings_Contains (variablesString (searchVariables args)) '',count:0,'')
         \<and> (args_XLiPageInstance args = [] \<longrightarrow>
               map_of (searchHeaders args) ''X-Li-Page-Instance'' = Some [defaultXLiPageInstance])
         \<and> (args_XLiTrack args = [] \<longrightarrow>
               map_of (searchHeaders args) ''X-Li-Track'' = Some [defaultXLiTrack])"
proof (intro conjI impI)
  from auth show "SearchProfiles url_Parse makeRequest json_Unmarshal config args = Inl ErrKeywordsMissing
      \<longleftrightarrow> args_Keywords args = []"
    by (simp add: SearchProfiles_keywords)
next
  assume "SearchProfiles url_Parse makeRequest json_Unmarshal config args = Inl err"
  with auth show "errors_Is err ErrKeywordsMissing \<longleftrightarrow> args_Keywords args = []"
    using SearchProfiles_errors_Is by blast
next
  show "(\<exists>failure. buildGraphQLURL url_Parse VoyagerBaseURL DefaultSearchQueryID (searchVariables args)
                     = Inl failure)
          \<longleftrightarrow> (\<exists>failure. url_Parse VoyagerBaseURL = Inl failure)"
    by (rule buildGraphQLURL_fails_iff)
next
  assume "args_NetworkFilters args = []"
  then show "sq_QueryParameters (sv_Query (searchVariables args))
      = [\<lparr>qp_Key = ''resultType'', qp_Value = [''PEOPLE'']\<rparr>]"
    by (rule searchVariables_no_network)
next
  assume "args_Count args = 0"
  with variablesString_count [of args]
  show "strings_Contains (variablesString (searchVariables args)) '',count:0,''"
    by (simp add: fmt_d_0)
next
  assume "args_XLiPageInstance args = []"
  then show "map_of (searchHeaders args) ''X-Li-Page-Instance'' = Some [defaultXLiPageInstance]"
    by (simp add: searchHeaders_page_instance)
next
  assume "args_XLiTrack args = []"
  then show "map_of (searchHeaders args) ''X-Li-Track'' = Some [defaultXLiTrack]"
    by (simp add: searchHeaders_track)
qed

theorem keywords_required_options_defaulted_witness:
  "SearchProfiles plainParse (\<lambda>method requestURL headers. Inl ErrRequestFailed)
      (\<lambda>respBodyBytes. Inl ErrResponseParseFailed) validConfig
      (keywordsOnlyArgs\<lparr>args_Keywords := []\<rparr>) = Inl ErrKeywordsMissing
   \<and> SearchProfiles plainParse (\<lambda>method requestURL headers. Inl ErrRequestFailed)
      (\<lambda>respBodyBytes. Inl ErrResponseParseFailed) validConfig keywordsOnlyArgs \<noteq> Inl ErrKeywordsMissing
   \<and> sq_QueryParameters (sv_Query (searchVariables keywordsOnlyArgs))
       = [\<lparr>qp_Key = ''resultType'', qp_Value = [''PEOPLE'']\<rparr>]
   \<and> strings_Contains (variablesString (searchVariables keywordsOnlyArgs)) '',count:0,''
   \<and> map_of (searchHeaders keywordsOnlyArgs) ''X-Li-Page-Instance'' = Some [defaultXLiPageInstance]
   \<and> map_of (searchHeaders keywordsOnlyArgs) ''X-Li-Track'' = Some [defaultXLiTrack]"
proof -
  have auth: "LiAtCookie (cfg_Auth validConfig) \<noteq> [] \<and> CSRFToken (cfg_Auth validConfig) \<noteq> []"
    by (simp add: validConfig_def)
  note missing = keywords_required_options_defaulted
    [OF auth, of plainParse "\<lambda>method requestURL headers. Inl ErrRequestFailed"
       "\<lambda>respBodyBytes. Inl ErrResponseParseFailed" "keywordsOnlyArgs\<lparr>args_Keywords := []\<rparr>"]
  note given = keywords_required_options_defaulted
    [OF auth, of plainParse "\<lambda>method requestURL headers. Inl ErrRequestFailed"
       "\<lambda>respBodyBytes. Inl ErrResponseParseFailed" keywordsOnlyArgs]
  have empty: "args_Keywords (keywordsOnlyArgs\<lparr>args_Keywords := []\<rparr>) = []" by simp
  have present: "args_Keywords keywordsOnlyArgs \<noteq> []"
    and absent: "args_NetworkFilters keywordsOnlyArgs = []" "args_Count keywordsOnlyArgs = 0"
      "args_XLiPageInstance keywordsOnlyArgs = []" "args_XLiTrack keywordsOnlyArgs = []"
    by (simp_all add: keywordsOnlyArgs_def)
  from missing empty
  have first: "SearchProfiles plainParse (\<lambda>method requestURL headers. Inl ErrRequestFailed)
      (\<lambda>respBodyBytes. Inl ErrResponseParseFailed) validConfig
      (keywordsOnlyArgs\<lparr>args_Keywords := []\<rparr>) = Inl ErrKeywordsMissing"
    by blast
  from given present absent show ?thesis
    using first by blast
qed

end
